theory Spec2Isabelle
  imports Main
begin

section \<open>Kubernetes object model\<close>

text \<open>
  The reconcilers of \<^verbatim>\<open>controllers/storagecluster\<close> read and write Kubernetes objects
  through a client. Every object is a pair of metadata and a kind-specific spec (and a
  status owned by the substrate); the fields below are the ones the Go code touches plus
  a few substrate-managed neighbours, so that a frame property has something to preserve.
  A \<^verbatim>\<open>metav1.Time\<close> is a natural number of ticks since Go's zero instant.
\<close>

type_synonym time = nat

record ownerReference =
  APIVersion :: string
  Kind :: string
  OwnerName :: string
  OwnerUID :: string
  Controller :: "bool option"
  BlockOwnerDeletion :: "bool option"

record objectMeta =
  Name :: string
  Namespace :: string
  UID :: string
  ResourceVersion :: string
  Labels :: "(string \<times> string) list"
  Annotations :: "(string \<times> string) list"
  OwnerReferences :: "ownerReference list"
  Finalizers :: "string list"
  DeletionTimestamp :: "time option"

record ('spec, 'status) object =
  ObjectMeta :: objectMeta
  Spec :: 'spec
  Status :: 'status

text \<open>The Go composite literal \<^verbatim>\<open>metav1.ObjectMeta{Name: n, Namespace: ns}\<close>: every other
  field has its zero value.\<close>

definition newObjectMeta :: "string \<Rightarrow> string \<Rightarrow> objectMeta" where
  "newObjectMeta n ns =
     \<lparr>Name = n, Namespace = ns, UID = [], ResourceVersion = [], Labels = [],
      Annotations = [], OwnerReferences = [], Finalizers = [], DeletionTimestamp = None\<rparr>"

text \<open>\<^verbatim>\<open>(*metav1.Time).IsZero\<close>: a nil pointer is zero, otherwise the instant decides.\<close>

fun IsZero :: "time option \<Rightarrow> bool" where
  "IsZero None = True"
| "IsZero (Some t) = (t = 0)"

datatype namespacedName = NamespacedName (nnNamespace: string) (nnName: string)

subsection \<open>Errors\<close>

datatype statusReason =
    StatusReasonNotFound
  | StatusReasonAlreadyExists
  | StatusReasonConflict
  | StatusReasonTimeout
  | StatusReasonInternalError

text \<open>An error is either an API status error of the substrate (reason and message) or a
  message built with \<^verbatim>\<open>fmt.Errorf\<close> (no wrapping verb is used anywhere in the source).\<close>

datatype error =
    StatusError statusReason string
  | Errorf string

fun Error :: "error \<Rightarrow> string" where
  "Error (StatusError reason msg) = msg"
| "Error (Errorf msg) = msg"

fun IsNotFound :: "error \<Rightarrow> bool" where
  "IsNotFound (StatusError reason msg) = (reason = StatusReasonNotFound)"
| "IsNotFound (Errorf msg) = False"

subsection \<open>The client and the reconciler\<close>

text \<open>
  \<^verbatim>\<open>r.Client\<close> is the resource-management substrate. It is a parameter of the model: four
  operations over an arbitrary substrate state \<open>'s\<close>, each returning its outcome and the
  state it leaves. \<^verbatim>\<open>Get\<close> fills the object it is given on success, so it returns
  the object; the mutating calls return \<^verbatim>\<open>nil\<close> (\<open>None\<close>) or an error.
\<close>

record ('s, 'o) client =
  Get :: "namespacedName \<Rightarrow> 's \<Rightarrow> (error + 'o) \<times> 's"
  Create :: "'o \<Rightarrow> 's \<Rightarrow> error option \<times> 's"
  Update :: "'o \<Rightarrow> 's \<Rightarrow> error option \<times> 's"
  Delete :: "'o \<Rightarrow> 's \<Rightarrow> error option \<times> 's"

record groupVersionKind =
  Group :: string
  Version :: string
  GVKind :: string

text \<open>\<^verbatim>\<open>r.Scheme\<close>, as far as the builders use it: the kind registered for the
  StorageCluster type, if any.\<close>

type_synonym scheme = "groupVersionKind option"

record ('s, 'o) storageClusterReconciler =
  Client :: "('s, 'o) client"
  Scheme :: scheme

text \<open>\<^verbatim>\<open>reconcile.Result\<close>; \<^verbatim>\<open>reconcile.Result{}\<close> is its zero value.\<close>

record reconcileResult =
  Requeue :: bool
  RequeueAfter :: int

definition emptyResult :: reconcileResult where
  "emptyResult = \<lparr>Requeue = False, RequeueAfter = 0\<rparr>"

subsection \<open>The parent: StorageCluster\<close>

record resourceRequirements =
  Limits :: "(string \<times> string) list"
  Requests :: "(string \<times> string) list"

record placement =
  NodeAffinity :: "string list"
  Tolerations :: "string list"

record nfsSpec =
  Enable :: bool

record networkSpec =
  HostNetwork :: bool

record storageClusterSpec =
  NFS :: "nfsSpec option"
  Network :: "networkSpec option"
  Resources :: "(string \<times> resourceRequirements) list"

type_synonym storageCluster = "(storageClusterSpec, unit) object"

text \<open>\<^verbatim>\<open>instance.Spec.NFS == nil || !instance.Spec.NFS.Enable\<close>, the test every
  \<^verbatim>\<open>ensureCreated\<close> starts with.\<close>

definition nfsDisabled :: "storageCluster \<Rightarrow> bool" where
  "nfsDisabled instance =
     (case NFS (Spec instance) of None \<Rightarrow> True | Some nfs \<Rightarrow> \<not> Enable nfs)"

subsection \<open>Derived names and ownership\<close>

text \<open>
  Modelled from the spec: the naming helpers \<^verbatim>\<open>generateNameForCephNFS\<close>,
  \<^verbatim>\<open>generateNameForCephNetworkFilesystem\<close> and \<^verbatim>\<open>generateNameForNFSService\<close> are
  called by the builders but defined elsewhere in the repository. The spec makes the
  derived name a function of the parent's identity and the kind; the repository's tests
  fix the suffixes (\<^verbatim>\<open>ocsinit-cephnfs\<close>, \<^verbatim>\<open>ocsinit-cephnetworkfilesystem\<close>,
  \<^verbatim>\<open>ocsinit-cephnfs-service\<close>).
\<close>

definition generateNameForCephNFS :: "storageCluster \<Rightarrow> string" where
  "generateNameForCephNFS initData = Name (ObjectMeta initData) @ ''-cephnfs''"

definition generateNameForCephNetworkFilesystem :: "storageCluster \<Rightarrow> string" where
  "generateNameForCephNetworkFilesystem initData =
     Name (ObjectMeta initData) @ ''-cephnetworkfilesystem''"

definition generateNameForNFSService :: "storageCluster \<Rightarrow> string" where
  "generateNameForNFSService initData = generateNameForCephNFS initData @ ''-service''"

text \<open>
  Modelled from the spec: \<^verbatim>\<open>controllerutil.SetControllerReference\<close> is library code. The
  builder "sets ownership metadata linking the object back to the Parent Resource" and
  "fails only if ownership linkage cannot be established": the owner's kind is looked
  up in the scheme, an owner in another namespace is refused, and on success one
  controller reference to the owner is added to the object's owner references.
\<close>

definition SetControllerReference ::
  "storageCluster \<Rightarrow> objectMeta \<Rightarrow> scheme \<Rightarrow> error + objectMeta" where
  "SetControllerReference owner obj sch =
     (if Namespace (ObjectMeta owner) \<noteq> [] \<and> Namespace obj \<noteq> Namespace (ObjectMeta owner)
      then Inl (Errorf ''cross-namespace owner references are disallowed'')
      else case sch of
        None \<Rightarrow> Inl (Errorf ''no kind is registered for the type v1.StorageCluster'')
      | Some gvk \<Rightarrow>
          Inr (obj\<lparr>OwnerReferences := OwnerReferences obj @
                 [\<lparr>APIVersion = Group gvk @ ''/'' @ Version gvk, Kind = GVKind gvk,
                   OwnerName = Name (ObjectMeta owner), OwnerUID = UID (ObjectMeta owner),
                   Controller = Some True, BlockOwnerDeletion = Some True\<rparr>]\<rparr>))"

section \<open>The NFS Service reconciler (nfsservice.go)\<close>

datatype intOrString = FromInt int | FromString string

record servicePort =
  PortName :: string
  Protocol :: string
  Port :: int
  TargetPort :: intOrString

record serviceSpec =
  Ports :: "servicePort list"
  Selector :: "(string \<times> string) list"
  ClusterIP :: string
  ClusterIPs :: "string list"
  ServiceType :: string
  ExternalIPs :: "string list"
  SessionAffinity :: string

record serviceStatus =
  LoadBalancer :: "string list"

type_synonym service = "(serviceSpec, serviceStatus) object"

definition ProtocolTCP :: string where
  "ProtocolTCP = ''TCP''"

definition ClusterIPNone :: string where
  "ClusterIPNone = ''None''"

text \<open>\<^verbatim>\<open>newNFSService\<close> returns the Service instance that should be created on first run.\<close>

definition newNFSService ::
  "('s, 'o) storageClusterReconciler \<Rightarrow> storageCluster \<Rightarrow> error + service" where
  "newNFSService r initData =
     (let nfsPort = 2049;
          obj = \<lparr>ObjectMeta = newObjectMeta (generateNameForNFSService initData)
                                 (Namespace (ObjectMeta initData)),
                 Spec = \<lparr>Ports = [\<lparr>PortName = ''nfs'', Protocol = ProtocolTCP,
                                    Port = nfsPort, TargetPort = FromInt nfsPort\<rparr>],
                         Selector = [(''app'', ''rook-ceph-nfs''),
                                     (''ceph_nfs'', generateNameForCephNetworkFilesystem initData)],
                         ClusterIP = [], ClusterIPs = [], ServiceType = [], ExternalIPs = [],
                         SessionAffinity = ''ClientIP''\<rparr>,
                 Status = \<lparr>LoadBalancer = []\<rparr>\<rparr>;
          obj = (if (case Network (Spec initData) of None \<Rightarrow> False
                     | Some network \<Rightarrow> HostNetwork network)
                 then obj\<lparr>Spec := (Spec obj)\<lparr>ClusterIP := ClusterIPNone\<rparr>\<rparr>
                 else obj)
      in case SetControllerReference initData (ObjectMeta obj) (Scheme r) of
           Inl err \<Rightarrow> Inl err
         | Inr meta \<Rightarrow> Inr (obj\<lparr>ObjectMeta := meta\<rparr>))"

text \<open>\<^verbatim>\<open>ensureDeleted\<close> deletes the NFS Service owned by the StorageCluster. Logging is
  not modelled. The test before the delete request reads the deletion timestamp of
  \<^verbatim>\<open>nfsService\<close>, the object just built, as the source does.\<close>

definition ocsNFSService_ensureDeleted ::
  "('s, service) storageClusterReconciler \<Rightarrow> storageCluster \<Rightarrow> 's
     \<Rightarrow> (reconcileResult \<times> error option) \<times> 's" where
  "ocsNFSService_ensureDeleted r sc s =
     (case newNFSService r sc of
        Inl err \<Rightarrow> ((emptyResult, Some err), s)
      | Inr nfsService \<Rightarrow>
          (case Get (Client r)
                  (NamespacedName (Namespace (ObjectMeta sc)) (Name (ObjectMeta nfsService))) s of
             (Inl err, s1) \<Rightarrow>
               if IsNotFound err then ((emptyResult, None), s1)
               else ((emptyResult,
                      Some (Errorf (''uninstall: Unable to retrieve NFS Service '' @
                                    Name (ObjectMeta nfsService) @ '': '' @ Error err))), s1)
           | (Inr foundNFSService, s1) \<Rightarrow>
               (case (if IsZero (DeletionTimestamp (ObjectMeta nfsService))
                      then Delete (Client r) foundNFSService s1
                      else (None, s1)) of
                  (Some err, s2) \<Rightarrow>
                    ((emptyResult,
                      Some (Errorf (''uninstall: Failed to delete NFS Service '' @
                                    Name (ObjectMeta foundNFSService) @ '': '' @ Error err))), s2)
                | (None, s2) \<Rightarrow>
                    (case Get (Client r)
                            (NamespacedName (Namespace (ObjectMeta sc))
                               (Name (ObjectMeta nfsService))) s2 of
                       (Inl err, s3) \<Rightarrow>
                         if IsNotFound err then ((emptyResult, None), s3)
                         else ((emptyResult,
                                Some (Errorf (''uninstall: Waiting for NFS Service '' @
                                              Name (ObjectMeta nfsService) @
                                              '' to be deleted''))), s3)
                     | (Inr found, s3) \<Rightarrow>
                         ((emptyResult,
                           Some (Errorf (''uninstall: Waiting for NFS Service '' @
                                         Name (ObjectMeta nfsService) @
                                         '' to be deleted''))), s3)))))"

text \<open>\<^verbatim>\<open>ensureCreated\<close> ensures that NFS Service resources exist in the desired state.
  The \<^verbatim>\<open>switch\<close> has a case for \<^verbatim>\<open>err == nil\<close> and one for not-found and no default:
  any other error of the fetch falls through to the final \<^verbatim>\<open>return\<close>.\<close>

definition ocsNFSService_ensureCreated ::
  "('s, service) storageClusterReconciler \<Rightarrow> storageCluster \<Rightarrow> 's
     \<Rightarrow> (reconcileResult \<times> error option) \<times> 's" where
  "ocsNFSService_ensureCreated r instance s =
     (if nfsDisabled instance then ocsNFSService_ensureDeleted r instance s
      else case newNFSService r instance of
        Inl err \<Rightarrow> ((emptyResult, Some err), s)
      | Inr nfsService \<Rightarrow>
          (case Get (Client r)
                  (NamespacedName (Namespace (ObjectMeta nfsService))
                     (Name (ObjectMeta nfsService))) s of
             (Inr existing, s1) \<Rightarrow>
               if DeletionTimestamp (ObjectMeta existing) \<noteq> None
               then ((emptyResult,
                      Some (Errorf (''failed to restore initialization object '' @
                                    Name (ObjectMeta existing) @
                                    '' because it is marked for deletion''))), s1)
               else
                 (let existing = existing\<lparr>ObjectMeta := (ObjectMeta existing)
                                   \<lparr>OwnerReferences := OwnerReferences (ObjectMeta nfsService)\<rparr>\<rparr>;
                      existing = existing\<lparr>Spec := (Spec existing)
                                   \<lparr>Ports := Ports (Spec nfsService)\<rparr>\<rparr>;
                      existing = existing\<lparr>Spec := (Spec existing)
                                   \<lparr>Selector := Selector (Spec nfsService)\<rparr>\<rparr>;
                      existing = existing\<lparr>Spec := (Spec existing)
                                   \<lparr>SessionAffinity := SessionAffinity (Spec nfsService)\<rparr>\<rparr>
                  in case Update (Client r) existing s1 of
                       (Some err, s2) \<Rightarrow> ((emptyResult, Some err), s2)
                     | (None, s2) \<Rightarrow> ((emptyResult, None), s2))
           | (Inl err, s1) \<Rightarrow>
               if IsNotFound err
               then (case Create (Client r) nfsService s1 of
                       (Some err, s2) \<Rightarrow> ((emptyResult, Some err), s2)
                     | (None, s2) \<Rightarrow> ((emptyResult, None), s2))
               else ((emptyResult, None), s1)))"

section \<open>The CephNFS reconcilers\<close>

text \<open>
  The builders of the Ceph kinds call functions and a constant of the repository that
  are defined elsewhere in the repository (\<^verbatim>\<open>getPlacement\<close>,
  \<^verbatim>\<open>defaults.GetDaemonResources\<close>, \<^verbatim>\<open>openshiftUserCritical\<close>, \<^verbatim>\<open>getFailureDomain\<close>,
  \<^verbatim>\<open>generateCephReplicatedSpec\<close>, \<^verbatim>\<open>generateNameForCephNFSBlockPool\<close>). They are
  parameters of the model, collected in one record.
\<close>

record replicatedSpec =
  Size :: nat
  ReplicasPerFailureDomain :: nat

record helpers =
  getPlacement :: "storageCluster \<Rightarrow> string \<Rightarrow> placement"
  GetDaemonResources ::
    "string \<Rightarrow> (string \<times> resourceRequirements) list \<Rightarrow> resourceRequirements"
  openshiftUserCritical :: string
  getFailureDomain :: "storageCluster \<Rightarrow> string"
  generateCephReplicatedSpec :: "storageCluster \<Rightarrow> string \<Rightarrow> replicatedSpec"
  generateNameForCephNFSBlockPool :: "storageCluster \<Rightarrow> string"

record ganeshaServerSpec =
  Active :: int
  Placement :: placement
  ServerResources :: resourceRequirements
  PriorityClassName :: string

record nfsGaneshaSpec =
  Server :: ganeshaServerSpec

type_synonym cephNFS = "(nfsGaneshaSpec, string option) object"

record poolSpec =
  FailureDomain :: string
  Replicated :: replicatedSpec
  EnableRBDStats :: bool

record namedBlockPoolSpec =
  PoolName :: string
  PoolSpec :: poolSpec

type_synonym cephBlockPool = "(namedBlockPoolSpec, string option) object"

subsection \<open>ocsCephNetworkFilesystem\<close>

text \<open>\<^verbatim>\<open>newCephNetworkFilesystemInstance\<close> returns the cephNetworkFilesystem instances
  that should be created on first run.\<close>

definition newCephNetworkFilesystemInstance ::
  "helpers \<Rightarrow> ('s, 'o) storageClusterReconciler \<Rightarrow> storageCluster \<Rightarrow> error + cephNFS" where
  "newCephNetworkFilesystemInstance h r initData =
     (let obj = \<lparr>ObjectMeta = newObjectMeta (generateNameForCephNetworkFilesystem initData)
                                 (Namespace (ObjectMeta initData)),
                 Spec = \<lparr>Server = \<lparr>Active = 1,
                                   Placement = getPlacement h initData ''nfs'',
                                   ServerResources =
                                     GetDaemonResources h ''nfs'' (Resources (Spec initData)),
                                   PriorityClassName = openshiftUserCritical h\<rparr>\<rparr>,
                 Status = None\<rparr>
      in case SetControllerReference initData (ObjectMeta obj) (Scheme r) of
           Inl err \<Rightarrow> Inl err
         | Inr meta \<Rightarrow> Inr (obj\<lparr>ObjectMeta := meta\<rparr>))"

text \<open>\<^verbatim>\<open>ensureDeleted\<close> deletes the CephNetworkFilesystems owned by the StorageCluster.\<close>

definition ocsCephNetworkFilesystem_ensureDeleted ::
  "helpers \<Rightarrow> ('s, cephNFS) storageClusterReconciler \<Rightarrow> storageCluster \<Rightarrow> 's
     \<Rightarrow> (reconcileResult \<times> error option) \<times> 's" where
  "ocsCephNetworkFilesystem_ensureDeleted h r sc s =
     (case newCephNetworkFilesystemInstance h r sc of
        Inl err \<Rightarrow> ((emptyResult, Some err), s)
      | Inr cephNetworkFilesystem \<Rightarrow>
          (case Get (Client r)
                  (NamespacedName (Namespace (ObjectMeta sc)) (Name (ObjectMeta cephNetworkFilesystem))) s of
             (Inl err, s1) \<Rightarrow>
               if IsNotFound err then ((emptyResult, None), s1)
               else ((emptyResult,
                      Some (Errorf (''uninstall: Unable to retrieve cephNetworkFilesystem '' @
                                    Name (ObjectMeta cephNetworkFilesystem) @ '': '' @ Error err))), s1)
           | (Inr foundCephNetworkFilesystem, s1) \<Rightarrow>
               (case (if IsZero (DeletionTimestamp (ObjectMeta cephNetworkFilesystem))
                      then Delete (Client r) foundCephNetworkFilesystem s1
                      else (None, s1)) of
                  (Some err, s2) \<Rightarrow>
                    ((emptyResult,
                      Some (Errorf (''uninstall: Failed to delete cephNetworkFilesystem '' @
                                    Name (ObjectMeta foundCephNetworkFilesystem) @ '': '' @ Error err))), s2)
                | (None, s2) \<Rightarrow>
                    (case Get (Client r)
                            (NamespacedName (Namespace (ObjectMeta sc))
                               (Name (ObjectMeta cephNetworkFilesystem))) s2 of
                       (Inl err, s3) \<Rightarrow>
                         if IsNotFound err then ((emptyResult, None), s3)
                         else ((emptyResult,
                                Some (Errorf (''uninstall: Waiting for cephNetworkFilesystem '' @
                                              Name (ObjectMeta cephNetworkFilesystem) @
                                              '' to be deleted''))), s3)
                     | (Inr found, s3) \<Rightarrow>
                         ((emptyResult,
                           Some (Errorf (''uninstall: Waiting for cephNetworkFilesystem '' @
                                         Name (ObjectMeta cephNetworkFilesystem) @
                                         '' to be deleted''))), s3)))))"

text \<open>\<^verbatim>\<open>ensureCreated\<close> ensures that cephNetworkFilesystem resources exist in the desired state.\<close>

definition ocsCephNetworkFilesystem_ensureCreated ::
  "helpers \<Rightarrow> ('s, cephNFS) storageClusterReconciler \<Rightarrow> storageCluster \<Rightarrow> 's
     \<Rightarrow> (reconcileResult \<times> error option) \<times> 's" where
  "ocsCephNetworkFilesystem_ensureCreated h r instance s =
     (if nfsDisabled instance then ocsCephNetworkFilesystem_ensureDeleted h r instance s
      else case newCephNetworkFilesystemInstance h r instance of
        Inl err \<Rightarrow> ((emptyResult, Some err), s)
      | Inr cephNetworkFilesystem \<Rightarrow>
          (case Get (Client r)
                  (NamespacedName (Namespace (ObjectMeta cephNetworkFilesystem))
                     (Name (ObjectMeta cephNetworkFilesystem))) s of
             (Inr existing, s1) \<Rightarrow>
               if DeletionTimestamp (ObjectMeta existing) \<noteq> None
               then ((emptyResult,
                      Some (Errorf (''failed to restore initialization object '' @
                                    Name (ObjectMeta existing) @
                                    '' because it is marked for deletion''))), s1)
               else
                 (let existing = existing\<lparr>ObjectMeta := (ObjectMeta existing)
                                   \<lparr>OwnerReferences := OwnerReferences (ObjectMeta cephNetworkFilesystem)\<rparr>\<rparr>;
                      existing = existing\<lparr>Spec := Spec cephNetworkFilesystem\<rparr>
                  in case Update (Client r) existing s1 of
                       (Some err, s2) \<Rightarrow> ((emptyResult, Some err), s2)
                     | (None, s2) \<Rightarrow> ((emptyResult, None), s2))
           | (Inl err, s1) \<Rightarrow>
               if IsNotFound err
               then (case Create (Client r) cephNetworkFilesystem s1 of
                       (Some err, s2) \<Rightarrow> ((emptyResult, Some err), s2)
                     | (None, s2) \<Rightarrow> ((emptyResult, None), s2))
               else ((emptyResult, None), s1)))"

subsection \<open>ocsCephNFS\<close>

text \<open>\<^verbatim>\<open>newCephNFSInstance\<close> returns the cephNFS instance that should be created on
  first run.\<close>

definition newCephNFSInstance ::
  "helpers \<Rightarrow> ('s, 'o) storageClusterReconciler \<Rightarrow> storageCluster \<Rightarrow> error + cephNFS" where
  "newCephNFSInstance h r initData =
     (let obj = \<lparr>ObjectMeta = newObjectMeta (generateNameForCephNFS initData)
                                 (Namespace (ObjectMeta initData)),
                 Spec = \<lparr>Server = \<lparr>Active = 1,
                                   Placement = getPlacement h initData ''nfs'',
                                   ServerResources =
                                     GetDaemonResources h ''nfs'' (Resources (Spec initData)),
                                   PriorityClassName = openshiftUserCritical h\<rparr>\<rparr>,
                 Status = None\<rparr>
      in case SetControllerReference initData (ObjectMeta obj) (Scheme r) of
           Inl err \<Rightarrow> Inl err
         | Inr meta \<Rightarrow> Inr (obj\<lparr>ObjectMeta := meta\<rparr>))"

text \<open>\<^verbatim>\<open>ensureDeleted\<close> deletes the CephNFS resource owned by the StorageCluster.\<close>

definition ocsCephNFS_ensureDeleted ::
  "helpers \<Rightarrow> ('s, cephNFS) storageClusterReconciler \<Rightarrow> storageCluster \<Rightarrow> 's
     \<Rightarrow> (reconcileResult \<times> error option) \<times> 's" where
  "ocsCephNFS_ensureDeleted h r sc s =
     (case newCephNFSInstance h r sc of
        Inl err \<Rightarrow> ((emptyResult, Some err), s)
      | Inr cephNFS \<Rightarrow>
          (case Get (Client r)
                  (NamespacedName (Namespace (ObjectMeta sc)) (Name (ObjectMeta cephNFS))) s of
             (Inl err, s1) \<Rightarrow>
               if IsNotFound err then ((emptyResult, None), s1)
               else ((emptyResult,
                      Some (Errorf (''uninstall: Unable to retrieve CephNFS '' @
                                    Name (ObjectMeta cephNFS) @ '': '' @ Error err))), s1)
           | (Inr foundCephNFS, s1) \<Rightarrow>
               (case (if IsZero (DeletionTimestamp (ObjectMeta cephNFS))
                      then Delete (Client r) foundCephNFS s1
                      else (None, s1)) of
                  (Some err, s2) \<Rightarrow>
                    ((emptyResult,
                      Some (Errorf (''uninstall: Failed to delete CephNFS '' @
                                    Name (ObjectMeta foundCephNFS) @ '': '' @ Error err))), s2)
                | (None, s2) \<Rightarrow>
                    (case Get (Client r)
                            (NamespacedName (Namespace (ObjectMeta sc))
                               (Name (ObjectMeta cephNFS))) s2 of
                       (Inl err, s3) \<Rightarrow>
                         if IsNotFound err then ((emptyResult, None), s3)
                         else ((emptyResult,
                                Some (Errorf (''uninstall: Waiting for CephNFS '' @
                                              Name (ObjectMeta cephNFS) @
                                              '' to be deleted''))), s3)
                     | (Inr found, s3) \<Rightarrow>
                         ((emptyResult,
                           Some (Errorf (''uninstall: Waiting for CephNFS '' @
                                         Name (ObjectMeta cephNFS) @
                                         '' to be deleted''))), s3)))))"

text \<open>\<^verbatim>\<open>ensureCreated\<close> ensures that cephNFS resource exist in the desired state.\<close>

definition ocsCephNFS_ensureCreated ::
  "helpers \<Rightarrow> ('s, cephNFS) storageClusterReconciler \<Rightarrow> storageCluster \<Rightarrow> 's
     \<Rightarrow> (reconcileResult \<times> error option) \<times> 's" where
  "ocsCephNFS_ensureCreated h r instance s =
     (if nfsDisabled instance then ocsCephNFS_ensureDeleted h r instance s
      else case newCephNFSInstance h r instance of
        Inl err \<Rightarrow> ((emptyResult, Some err), s)
      | Inr cephNFS \<Rightarrow>
          (case Get (Client r)
                  (NamespacedName (Namespace (ObjectMeta cephNFS))
                     (Name (ObjectMeta cephNFS))) s of
             (Inr existingCephNFS, s1) \<Rightarrow>
               if DeletionTimestamp (ObjectMeta existingCephNFS) \<noteq> None
               then ((emptyResult,
                      Some (Errorf (''failed to restore initialization object '' @
                                    Name (ObjectMeta existingCephNFS) @
                                    '' because it is marked for deletion''))), s1)
               else
                 (let existingCephNFS = existingCephNFS\<lparr>ObjectMeta := (ObjectMeta existingCephNFS)
                                   \<lparr>OwnerReferences := OwnerReferences (ObjectMeta cephNFS)\<rparr>\<rparr>;
                      existingCephNFS = existingCephNFS\<lparr>Spec := Spec cephNFS\<rparr>
                  in case Update (Client r) existingCephNFS s1 of
                       (Some err, s2) \<Rightarrow> ((emptyResult, Some err), s2)
                     | (None, s2) \<Rightarrow> ((emptyResult, None), s2))
           | (Inl err, s1) \<Rightarrow>
               if IsNotFound err
               then (case Create (Client r) cephNFS s1 of
                       (Some err, s2) \<Rightarrow> ((emptyResult, Some err), s2)
                     | (None, s2) \<Rightarrow> ((emptyResult, None), s2))
               else ((emptyResult, None), s1)))"

subsection \<open>ocsCephNFSBlockPool\<close>

text \<open>\<^verbatim>\<open>newCephNFSBlockPoolInstance\<close> returns the cephBlockPool instance required for
  cephNFS that should be created on first run.\<close>

definition newCephNFSBlockPoolInstance ::
  "helpers \<Rightarrow> ('s, 'o) storageClusterReconciler \<Rightarrow> storageCluster
     \<Rightarrow> error + cephBlockPool" where
  "newCephNFSBlockPoolInstance h r initData =
     (let obj = \<lparr>ObjectMeta = newObjectMeta (generateNameForCephNFSBlockPool h initData)
                                 (Namespace (ObjectMeta initData)),
                 Spec = \<lparr>PoolName = ''.nfs'',
                         PoolSpec = \<lparr>FailureDomain = getFailureDomain h initData,
                                     Replicated = generateCephReplicatedSpec h initData ''data'',
                                     EnableRBDStats = True\<rparr>\<rparr>,
                 Status = None\<rparr>
      in case SetControllerReference initData (ObjectMeta obj) (Scheme r) of
           Inl err \<Rightarrow> Inl err
         | Inr meta \<Rightarrow> Inr (obj\<lparr>ObjectMeta := meta\<rparr>))"

text \<open>\<^verbatim>\<open>ensureDeleted\<close> deletes the CephNFS related CephBlockPool resource owned by the StorageCluster.\<close>

definition ocsCephNFSBlockPool_ensureDeleted ::
  "helpers \<Rightarrow> ('s, cephBlockPool) storageClusterReconciler \<Rightarrow> storageCluster \<Rightarrow> 's
     \<Rightarrow> (reconcileResult \<times> error option) \<times> 's" where
  "ocsCephNFSBlockPool_ensureDeleted h r sc s =
     (case newCephNFSBlockPoolInstance h r sc of
        Inl err \<Rightarrow> ((emptyResult, Some err), s)
      | Inr cephBlockPool \<Rightarrow>
          (case Get (Client r)
                  (NamespacedName (Namespace (ObjectMeta sc)) (Name (ObjectMeta cephBlockPool))) s of
             (Inl err, s1) \<Rightarrow>
               if IsNotFound err then ((emptyResult, None), s1)
               else ((emptyResult,
                      Some (Errorf (''uninstall: unable to retrieve CephBlockPool '' @
                                    Name (ObjectMeta cephBlockPool) @ '': '' @ Error err))), s1)
           | (Inr foundCephBlockPool, s1) \<Rightarrow>
               (case (if IsZero (DeletionTimestamp (ObjectMeta cephBlockPool))
                      then Delete (Client r) foundCephBlockPool s1
                      else (None, s1)) of
                  (Some err, s2) \<Rightarrow>
                    ((emptyResult,
                      Some (Errorf (''uninstall: Failed to delete CephBlockPool '' @
                                    Name (ObjectMeta foundCephBlockPool) @ '': '' @ Error err))), s2)
                | (None, s2) \<Rightarrow>
                    (case Get (Client r)
                            (NamespacedName (Namespace (ObjectMeta sc))
                               (Name (ObjectMeta cephBlockPool))) s2 of
                       (Inl err, s3) \<Rightarrow>
                         if IsNotFound err then ((emptyResult, None), s3)
                         else ((emptyResult,
                                Some (Errorf (''uninstall: Waiting for CephBlockPool '' @
                                              Name (ObjectMeta cephBlockPool) @
                                              '' to be deleted''))), s3)
                     | (Inr found, s3) \<Rightarrow>
                         ((emptyResult,
                           Some (Errorf (''uninstall: Waiting for CephBlockPool '' @
                                         Name (ObjectMeta cephBlockPool) @
                                         '' to be deleted''))), s3)))))"

text \<open>\<^verbatim>\<open>ensureCreated\<close> ensures that CephNFS related CephBlockPool resource exist in the desired state.\<close>

definition ocsCephNFSBlockPool_ensureCreated ::
  "helpers \<Rightarrow> ('s, cephBlockPool) storageClusterReconciler \<Rightarrow> storageCluster \<Rightarrow> 's
     \<Rightarrow> (reconcileResult \<times> error option) \<times> 's" where
  "ocsCephNFSBlockPool_ensureCreated h r instance s =
     (if nfsDisabled instance then ocsCephNFSBlockPool_ensureDeleted h r instance s
      else case newCephNFSBlockPoolInstance h r instance of
        Inl err \<Rightarrow> ((emptyResult, Some err), s)
      | Inr cephBlockPool \<Rightarrow>
          (case Get (Client r)
                  (NamespacedName (Namespace (ObjectMeta cephBlockPool))
                     (Name (ObjectMeta cephBlockPool))) s of
             (Inr existingBlockPool, s1) \<Rightarrow>
               if DeletionTimestamp (ObjectMeta existingBlockPool) \<noteq> None
               then ((emptyResult,
                      Some (Errorf (''failed to restore initialization object '' @
                                    Name (ObjectMeta existingBlockPool) @
                                    '' because it is marked for deletion''))), s1)
               else
                 (let existingBlockPool = existingBlockPool\<lparr>ObjectMeta := (ObjectMeta existingBlockPool)
                                   \<lparr>OwnerReferences := OwnerReferences (ObjectMeta cephBlockPool)\<rparr>\<rparr>;
                      existingBlockPool = existingBlockPool\<lparr>Spec := Spec cephBlockPool\<rparr>
                  in case Update (Client r) existingBlockPool s1 of
                       (Some err, s2) \<Rightarrow> ((emptyResult, Some err), s2)
                     | (None, s2) \<Rightarrow> ((emptyResult, None), s2))
           | (Inl err, s1) \<Rightarrow>
               if IsNotFound err
               then (case Create (Client r) cephBlockPool s1 of
                       (Some err, s2) \<Rightarrow> ((emptyResult, Some err), s2)
                     | (None, s2) \<Rightarrow> ((emptyResult, None), s2))
               else ((emptyResult, None), s1)))"

subsection \<open>ocsCephNFSService\<close>

text \<open>The Service reconciler as the CephNFS source file has it: an earlier form of
  \<^verbatim>\<open>newNFSService\<close> (no protocol, no target port, the selector names the CephNFS) and
  an update that replaces the whole spec of the live Service.\<close>

definition ocsCephNFSService_newNFSService ::
  "('s, 'o) storageClusterReconciler \<Rightarrow> storageCluster \<Rightarrow> error + service" where
  "ocsCephNFSService_newNFSService r initData =
     (let obj = \<lparr>ObjectMeta = newObjectMeta (generateNameForNFSService initData)
                                 (Namespace (ObjectMeta initData)),
                 Spec = \<lparr>Ports = [\<lparr>PortName = ''nfs'', Protocol = [],
                                    Port = 2049, TargetPort = FromInt 0\<rparr>],
                         Selector = [(''app'', ''rook-ceph-nfs''),
                                     (''ceph_nfs'', generateNameForCephNFS initData)],
                         ClusterIP = [], ClusterIPs = [], ServiceType = [], ExternalIPs = [],
                         SessionAffinity = ''ClientIP''\<rparr>,
                 Status = \<lparr>LoadBalancer = []\<rparr>\<rparr>
      in case SetControllerReference initData (ObjectMeta obj) (Scheme r) of
           Inl err \<Rightarrow> Inl err
         | Inr meta \<Rightarrow> Inr (obj\<lparr>ObjectMeta := meta\<rparr>))"

text \<open>\<^verbatim>\<open>ensureDeleted\<close> deletes the cephNFS related service owned by the StorageCluster.\<close>

definition ocsCephNFSService_ensureDeleted ::
  "('s, service) storageClusterReconciler \<Rightarrow> storageCluster \<Rightarrow> 's
     \<Rightarrow> (reconcileResult \<times> error option) \<times> 's" where
  "ocsCephNFSService_ensureDeleted r sc s =
     (case ocsCephNFSService_newNFSService r sc of
        Inl err \<Rightarrow> ((emptyResult, Some err), s)
      | Inr nfsService \<Rightarrow>
          (case Get (Client r)
                  (NamespacedName (Namespace (ObjectMeta sc)) (Name (ObjectMeta nfsService))) s of
             (Inl err, s1) \<Rightarrow>
               if IsNotFound err then ((emptyResult, None), s1)
               else ((emptyResult,
                      Some (Errorf (''uninstall: Unable to retrieve NFS Service '' @
                                    Name (ObjectMeta nfsService) @ '': '' @ Error err))), s1)
           | (Inr foundNFSService, s1) \<Rightarrow>
               (case (if IsZero (DeletionTimestamp (ObjectMeta nfsService))
                      then Delete (Client r) foundNFSService s1
                      else (None, s1)) of
                  (Some err, s2) \<Rightarrow>
                    ((emptyResult,
                      Some (Errorf (''uninstall: Failed to delete NFS Service '' @
                                    Name (ObjectMeta foundNFSService) @ '': '' @ Error err))), s2)
                | (None, s2) \<Rightarrow>
                    (case Get (Client r)
                            (NamespacedName (Namespace (ObjectMeta sc))
                               (Name (ObjectMeta nfsService))) s2 of
                       (Inl err, s3) \<Rightarrow>
                         if IsNotFound err then ((emptyResult, None), s3)
                         else ((emptyResult,
                                Some (Errorf (''uninstall: Waiting for NFS Service '' @
                                              Name (ObjectMeta nfsService) @
                                              '' to be deleted''))), s3)
                     | (Inr found, s3) \<Rightarrow>
                         ((emptyResult,
                           Some (Errorf (''uninstall: Waiting for NFS Service '' @
                                         Name (ObjectMeta nfsService) @
                                         '' to be deleted''))), s3)))))"

text \<open>\<^verbatim>\<open>ensureCreated\<close> ensures that cephNFS related service resource exist in the desired state.\<close>

definition ocsCephNFSService_ensureCreated ::
  "('s, service) storageClusterReconciler \<Rightarrow> storageCluster \<Rightarrow> 's
     \<Rightarrow> (reconcileResult \<times> error option) \<times> 's" where
  "ocsCephNFSService_ensureCreated r instance s =
     (if nfsDisabled instance then ocsCephNFSService_ensureDeleted r instance s
      else case ocsCephNFSService_newNFSService r instance of
        Inl err \<Rightarrow> ((emptyResult, Some err), s)
      | Inr nfsService \<Rightarrow>
          (case Get (Client r)
                  (NamespacedName (Namespace (ObjectMeta nfsService))
                     (Name (ObjectMeta nfsService))) s of
             (Inr existingNFSService, s1) \<Rightarrow>
               if DeletionTimestamp (ObjectMeta existingNFSService) \<noteq> None
               then ((emptyResult,
                      Some (Errorf (''failed to restore initialization object '' @
                                    Name (ObjectMeta existingNFSService) @
                                    '' because it is marked for deletion''))), s1)
               else
                 (let existingNFSService = existingNFSService\<lparr>ObjectMeta := (ObjectMeta existingNFSService)
                                   \<lparr>OwnerReferences := OwnerReferences (ObjectMeta nfsService)\<rparr>\<rparr>;
                      existingNFSService = existingNFSService\<lparr>Spec := Spec nfsService\<rparr>
                  in case Update (Client r) existingNFSService s1 of
                       (Some err, s2) \<Rightarrow> ((emptyResult, Some err), s2)
                     | (None, s2) \<Rightarrow> ((emptyResult, None), s2))
           | (Inl err, s1) \<Rightarrow>
               if IsNotFound err
               then (case Create (Client r) nfsService s1 of
                       (Some err, s2) \<Rightarrow> ((emptyResult, Some err), s2)
                     | (None, s2) \<Rightarrow> ((emptyResult, None), s2))
               else ((emptyResult, None), s1)))"

section \<open>Observing the substrate calls\<close>

text \<open>
  To say which calls a reconciler issues, a client is wrapped so that every call is
  appended to a log kept beside the substrate state; the wrapped client answers exactly
  as the client it wraps.
\<close>

datatype 'o call = CallGet namespacedName | CallCreate 'o | CallUpdate 'o | CallDelete 'o

fun isMutating :: "'o call \<Rightarrow> bool" where
  "isMutating (CallGet key) = False"
| "isMutating (CallCreate obj) = True"
| "isMutating (CallUpdate obj) = True"
| "isMutating (CallDelete obj) = True"

definition traced :: "('s, 'o) client \<Rightarrow> ('s \<times> 'o call list, 'o) client" where
  "traced c =
     \<lparr>Get = (\<lambda>key (s, log). case Get c key s of (res, s') \<Rightarrow> (res, (s', log @ [CallGet key]))),
      Create = (\<lambda>obj (s, log). case Create c obj s of (res, s') \<Rightarrow> (res, (s', log @ [CallCreate obj]))),
      Update = (\<lambda>obj (s, log). case Update c obj s of (res, s') \<Rightarrow> (res, (s', log @ [CallUpdate obj]))),
      Delete = (\<lambda>obj (s, log). case Delete c obj s of (res, s') \<Rightarrow> (res, (s', log @ [CallDelete obj])))\<rparr>"

definition reconciler :: "('s, 'o) client \<Rightarrow> scheme \<Rightarrow> ('s \<times> 'o call list, 'o) storageClusterReconciler" where
  "reconciler c sch = \<lparr>Client = traced c, Scheme = sch\<rparr>"

definition keyOf :: "('spec, 'status) object \<Rightarrow> namespacedName" where
  "keyOf obj = NamespacedName (Namespace (ObjectMeta obj)) (Name (ObjectMeta obj))"

section \<open>A reference substrate\<close>

text \<open>
  A concrete substrate to run the reconcilers on: a store of live objects by namespace
  and name, a script of injected faults (one entry is consumed by each call; \<open>Some err\<close>
  makes that call fail with \<open>err\<close>, an exhausted script injects nothing), a clock, and
  the substrate's admission function: what it persists for an object submitted by a
  write (the object with the fields the substrate manages itself filled in).
  A create stores the admitted object; an update that submits the stored object
  unchanged changes nothing, any other update stores the admitted object; a delete
  request removes an object without finalizers and marks one with finalizers for
  deletion, as the API server does.
\<close>

record 'o cluster =
  objects :: "namespacedName \<Rightarrow> 'o option"
  faults :: "error option list"
  clock :: time
  admit :: "'o \<Rightarrow> 'o"

definition injected :: "'o cluster \<Rightarrow> error option" where
  "injected s = (case faults s of [] \<Rightarrow> None | f # rest \<Rightarrow> f)"

definition consume :: "'o cluster \<Rightarrow> 'o cluster" where
  "consume s = s\<lparr>faults := tl (faults s)\<rparr>"

definition notFound :: "namespacedName \<Rightarrow> error" where
  "notFound key = StatusError StatusReasonNotFound (nnName key @ '' not found'')"

definition clusterGet ::
  "namespacedName \<Rightarrow> ('spec, 'status) object cluster
     \<Rightarrow> (error + ('spec, 'status) object) \<times> ('spec, 'status) object cluster" where
  "clusterGet key s =
     (case injected s of
        Some err \<Rightarrow> (Inl err, consume s)
      | None \<Rightarrow>
          (case objects s key of
             None \<Rightarrow> (Inl (notFound key), consume s)
           | Some obj \<Rightarrow> (Inr obj, consume s)))"

definition clusterCreate ::
  "('spec, 'status) object \<Rightarrow> ('spec, 'status) object cluster
     \<Rightarrow> error option \<times> ('spec, 'status) object cluster" where
  "clusterCreate obj s =
     (case injected s of
        Some err \<Rightarrow> (Some err, consume s)
      | None \<Rightarrow>
          (case objects s (keyOf obj) of
             Some live \<Rightarrow>
               (Some (StatusError StatusReasonAlreadyExists
                        (Name (ObjectMeta obj) @ '' already exists'')), consume s)
           | None \<Rightarrow>
               (None, consume (s\<lparr>objects := (objects s)(keyOf obj \<mapsto> admit s obj)\<rparr>))))"

definition clusterUpdate ::
  "('spec, 'status) object \<Rightarrow> ('spec, 'status) object cluster
     \<Rightarrow> error option \<times> ('spec, 'status) object cluster" where
  "clusterUpdate obj s =
     (case injected s of
        Some err \<Rightarrow> (Some err, consume s)
      | None \<Rightarrow>
          (case objects s (keyOf obj) of
             None \<Rightarrow> (Some (notFound (keyOf obj)), consume s)
           | Some live \<Rightarrow>
               if obj = live then (None, consume s)
               else (None, consume (s\<lparr>objects := (objects s)(keyOf obj \<mapsto> admit s obj)\<rparr>))))"

definition clusterDelete ::
  "('spec, 'status) object \<Rightarrow> ('spec, 'status) object cluster
     \<Rightarrow> error option \<times> ('spec, 'status) object cluster" where
  "clusterDelete obj s =
     (case injected s of
        Some err \<Rightarrow> (Some err, consume s)
      | None \<Rightarrow>
          (case objects s (keyOf obj) of
             None \<Rightarrow> (Some (notFound (keyOf obj)), consume s)
           | Some live \<Rightarrow>
               if Finalizers (ObjectMeta live) = []
               then (None, consume (s\<lparr>objects := (objects s)(keyOf obj := None)\<rparr>))
               else if DeletionTimestamp (ObjectMeta live) \<noteq> None then (None, consume s)
               else (None, consume (s\<lparr>objects := (objects s)(keyOf obj \<mapsto>
                       live\<lparr>ObjectMeta := (ObjectMeta live)
                              \<lparr>DeletionTimestamp := Some (clock s)\<rparr>\<rparr>)\<rparr>))))"

definition clusterClient ::
  "(('spec, 'status) object cluster, ('spec, 'status) object) client" where
  "clusterClient =
     \<lparr>Get = clusterGet, Create = clusterCreate, Update = clusterUpdate, Delete = clusterDelete\<rparr>"





section \<open>Concrete inputs\<close>

text \<open>
  The parent of the repository's tests is a StorageCluster named \<^verbatim>\<open>ocsinit\<close>; here it
  has the NFS feature enabled (and, in a second form, disabled). The helper record gives
  the absent helpers fixed answers.
\<close>

definition storageClusterGVK :: groupVersionKind where
  "storageClusterGVK = \<lparr>Group = ''ocs.openshift.io'', Version = ''v1'', GVKind = ''StorageCluster''\<rparr>"

definition ocsinit :: storageCluster where
  "ocsinit =
     \<lparr>ObjectMeta = (newObjectMeta ''ocsinit'' ''openshift-storage'')\<lparr>UID := ''5d1b''\<rparr>,
      Spec = \<lparr>NFS = Some \<lparr>Enable = True\<rparr>, Network = None, Resources = []\<rparr>,
      Status = ()\<rparr>"

definition ocsinitDisabled :: storageCluster where
  "ocsinitDisabled = ocsinit\<lparr>Spec := (Spec ocsinit)\<lparr>NFS := Some \<lparr>Enable = False\<rparr>\<rparr>\<rparr>"

definition exampleHelpers :: helpers where
  "exampleHelpers =
     \<lparr>getPlacement = (\<lambda>sc tag. \<lparr>NodeAffinity = [], Tolerations = []\<rparr>),
      GetDaemonResources = (\<lambda>tag overrides. \<lparr>Limits = [(''cpu'', ''1'')], Requests = []\<rparr>),
      openshiftUserCritical = ''openshift-user-critical'',
      getFailureDomain = (\<lambda>sc. ''host''),
      generateCephReplicatedSpec = (\<lambda>sc tag. \<lparr>Size = 3, ReplicasPerFailureDomain = 1\<rparr>),
      generateNameForCephNFSBlockPool =
        (\<lambda>sc. Name (ObjectMeta sc) @ ''-cephnfs-builtin-pool'')\<rparr>"

definition ocsinitOwner :: ownerReference where
  "ocsinitOwner =
     \<lparr>APIVersion = ''ocs.openshift.io/v1'', Kind = ''StorageCluster'', OwnerName = ''ocsinit'',
      OwnerUID = ''5d1b'', Controller = Some True, BlockOwnerDeletion = Some True\<rparr>"

definition ownedMeta :: "string \<Rightarrow> objectMeta" where
  "ownedMeta n = (newObjectMeta n ''openshift-storage'')\<lparr>OwnerReferences := [ocsinitOwner]\<rparr>"

text \<open>The desired objects of \<^verbatim>\<open>ocsinit\<close>, written out.\<close>

definition desiredNFSService :: service where
  "desiredNFSService =
     \<lparr>ObjectMeta = ownedMeta ''ocsinit-cephnfs-service'',
      Spec = \<lparr>Ports = [\<lparr>PortName = ''nfs'', Protocol = ''TCP'', Port = 2049,
                         TargetPort = FromInt 2049\<rparr>],
              Selector = [(''app'', ''rook-ceph-nfs''),
                          (''ceph_nfs'', ''ocsinit-cephnetworkfilesystem'')],
              ClusterIP = [], ClusterIPs = [], ServiceType = [], ExternalIPs = [],
              SessionAffinity = ''ClientIP''\<rparr>,
      Status = \<lparr>LoadBalancer = []\<rparr>\<rparr>"

definition desiredCephNFSService :: service where
  "desiredCephNFSService =
     \<lparr>ObjectMeta = ownedMeta ''ocsinit-cephnfs-service'',
      Spec = \<lparr>Ports = [\<lparr>PortName = ''nfs'', Protocol = [], Port = 2049,
                         TargetPort = FromInt 0\<rparr>],
              Selector = [(''app'', ''rook-ceph-nfs''), (''ceph_nfs'', ''ocsinit-cephnfs'')],
              ClusterIP = [], ClusterIPs = [], ServiceType = [], ExternalIPs = [],
              SessionAffinity = ''ClientIP''\<rparr>,
      Status = \<lparr>LoadBalancer = []\<rparr>\<rparr>"

definition desiredGaneshaSpec :: nfsGaneshaSpec where
  "desiredGaneshaSpec =
     \<lparr>Server = \<lparr>Active = 1, Placement = \<lparr>NodeAffinity = [], Tolerations = []\<rparr>,
                 ServerResources = \<lparr>Limits = [(''cpu'', ''1'')], Requests = []\<rparr>,
                 PriorityClassName = ''openshift-user-critical''\<rparr>\<rparr>"

definition desiredCephNetworkFilesystem :: cephNFS where
  "desiredCephNetworkFilesystem =
     \<lparr>ObjectMeta = ownedMeta ''ocsinit-cephnetworkfilesystem'',
      Spec = desiredGaneshaSpec, Status = None\<rparr>"

definition desiredCephNFS :: cephNFS where
  "desiredCephNFS =
     \<lparr>ObjectMeta = ownedMeta ''ocsinit-cephnfs'', Spec = desiredGaneshaSpec, Status = None\<rparr>"

definition desiredCephBlockPool :: cephBlockPool where
  "desiredCephBlockPool =
     \<lparr>ObjectMeta = ownedMeta ''ocsinit-cephnfs-builtin-pool'',
      Spec = \<lparr>PoolName = ''.nfs'',
              PoolSpec = \<lparr>FailureDomain = ''host'',
                          Replicated = \<lparr>Size = 3, ReplicasPerFailureDomain = 1\<rparr>,
                          EnableRBDStats = True\<rparr>\<rparr>,
      Status = None\<rparr>"

text \<open>Substrate states: an empty cluster, a cluster holding one live object, a live
  object guarded by a finalizer, the same object once a delete request has marked it
  (at the cluster's clock), and a cluster whose next call fails. These persist objects
  as submitted; \<open>admitting\<close> replaces the admission function.\<close>

definition emptyCluster :: "('spec, 'status) object cluster" where
  "emptyCluster =
     \<lparr>objects = (\<lambda>key. None), faults = [], clock = 100, admit = (\<lambda>obj. obj)\<rparr>"

definition clusterWith :: "('spec, 'status) object \<Rightarrow> ('spec, 'status) object cluster" where
  "clusterWith obj =
     \<lparr>objects = (\<lambda>key. None)(keyOf obj \<mapsto> obj), faults = [], clock = 100,
      admit = (\<lambda>obj. obj)\<rparr>"

definition markedForDeletion :: "('spec, 'status) object \<Rightarrow> ('spec, 'status) object" where
  "markedForDeletion obj =
     obj\<lparr>ObjectMeta := (ObjectMeta obj)\<lparr>Finalizers := [''kubernetes.io/pvc-protection''],
                                          DeletionTimestamp := Some 100\<rparr>\<rparr>"

definition withFinalizer :: "('spec, 'status) object \<Rightarrow> ('spec, 'status) object" where
  "withFinalizer obj =
     obj\<lparr>ObjectMeta := (ObjectMeta obj)\<lparr>Finalizers := [''kubernetes.io/pvc-protection'']\<rparr>\<rparr>"

definition serverTimeout :: error where
  "serverTimeout = StatusError StatusReasonTimeout ''etcdserver: request timed out''"

definition failingCluster :: "('spec, 'status) object cluster" where
  "failingCluster =
     \<lparr>objects = (\<lambda>key. None), faults = [Some serverTimeout], clock = 100,
      admit = (\<lambda>obj. obj)\<rparr>"

text \<open>A live Service as the substrate keeps it: a cluster IP assigned, its own labels and
  resource version, owner references and ports that differ from the desired ones.\<close>

definition liveNFSService :: service where
  "liveNFSService =
     \<lparr>ObjectMeta = (newObjectMeta ''ocsinit-cephnfs-service'' ''openshift-storage'')
                     \<lparr>UID := ''77aa'', ResourceVersion := ''1201'',
                      Labels := [(''team'', ''storage'')]\<rparr>,
      Spec = \<lparr>Ports = [\<lparr>PortName = ''nfs'', Protocol = ''UDP'', Port = 111,
                         TargetPort = FromInt 111\<rparr>],
              Selector = [(''app'', ''stale'')],
              ClusterIP = ''172.30.12.7'', ClusterIPs = [''172.30.12.7''],
              ServiceType = ''ClusterIP'', ExternalIPs = [],
              SessionAffinity = ''None''\<rparr>,
      Status = \<lparr>LoadBalancer = []\<rparr>\<rparr>"


text \<open>\<open>liveNFSService\<close> after the update path of \<^verbatim>\<open>ocsNFSService.ensureCreated\<close> for
  \<open>ocsinit\<close>.\<close>

definition restoredNFSService :: service where
  "restoredNFSService =
     \<lparr>ObjectMeta = (newObjectMeta ''ocsinit-cephnfs-service'' ''openshift-storage'')
                     \<lparr>UID := ''77aa'', ResourceVersion := ''1201'',
                      Labels := [(''team'', ''storage'')],
                      OwnerReferences := [ocsinitOwner]\<rparr>,
      Spec = \<lparr>Ports = [\<lparr>PortName = ''nfs'', Protocol = ''TCP'', Port = 2049,
                         TargetPort = FromInt 2049\<rparr>],
              Selector = [(''app'', ''rook-ceph-nfs''),
                          (''ceph_nfs'', ''ocsinit-cephnetworkfilesystem'')],
              ClusterIP = ''172.30.12.7'', ClusterIPs = [''172.30.12.7''],
              ServiceType = ''ClusterIP'', ExternalIPs = [],
              SessionAffinity = ''ClientIP''\<rparr>,
      Status = \<lparr>LoadBalancer = []\<rparr>\<rparr>"





text \<open>A cluster holding one live object whose first call succeeds and whose second call
  (the delete request) is refused.\<close>

definition deleteRefusingCluster ::
  "('spec, 'status) object \<Rightarrow> ('spec, 'status) object cluster" where
  "deleteRefusingCluster obj =
     \<lparr>objects = (\<lambda>key. None)(keyOf obj \<mapsto> obj), faults = [None, Some serverTimeout],
      clock = 100, admit = (\<lambda>obj. obj)\<rparr>"

text \<open>The parent \<open>ocsinit\<close> as a later read returns it: the same identity and spec,
  another resource version and a label more.\<close>

definition ocsinitRelabelled :: storageCluster where
  "ocsinitRelabelled =
     ocsinit\<lparr>ObjectMeta := (ObjectMeta ocsinit)
                \<lparr>ResourceVersion := ''8841'', Labels := [(''env'', ''prod'')]\<rparr>\<rparr>"

section \<open>Basic facts\<close>

lemma traced_simps [simp]:
  "Get (traced c) key (s, log) =
     (case Get c key s of (res, s') \<Rightarrow> (res, (s', log @ [CallGet key])))"
  "Create (traced c) obj (s, log) =
     (case Create c obj s of (res, s') \<Rightarrow> (res, (s', log @ [CallCreate obj])))"
  "Update (traced c) obj (s, log) =
     (case Update c obj s of (res, s') \<Rightarrow> (res, (s', log @ [CallUpdate obj])))"
  "Delete (traced c) obj (s, log) =
     (case Delete c obj s of (res, s') \<Rightarrow> (res, (s', log @ [CallDelete obj])))"
  by (simp_all add: traced_def)

lemma reconciler_simps [simp]:
  "Client (reconciler c sch) = traced c"
  "Scheme (reconciler c sch) = sch"
  by (simp_all add: reconciler_def)

lemma clusterClient_simps:
  "Get clusterClient = clusterGet"
  "Create clusterClient = clusterCreate"
  "Update clusterClient = clusterUpdate"
  "Delete clusterClient = clusterDelete"
  by (simp_all add: clusterClient_def)

text \<open>Setting the controller reference touches the owner references only.\<close>

lemma SetControllerReference_meta:
  assumes "SetControllerReference owner obj sch = Inr meta"
  shows "Name meta = Name obj \<and> Namespace meta = Namespace obj \<and>
         DeletionTimestamp meta = DeletionTimestamp obj"
  using assms by (auto simp: SetControllerReference_def split: if_splits option.splits)

text \<open>A freshly built desired object lives in the parent's namespace and carries no
  deletion timestamp.\<close>

lemma newNFSService_meta:
  assumes "newNFSService r p = Inr d"
  shows "Namespace (ObjectMeta d) = Namespace (ObjectMeta p)"
    and "DeletionTimestamp (ObjectMeta d) = None"
    and "IsZero (DeletionTimestamp (ObjectMeta d))"
    and "NamespacedName (Namespace (ObjectMeta p)) (Name (ObjectMeta d)) = keyOf d"
    and "NamespacedName (Namespace (ObjectMeta d)) (Name (ObjectMeta d)) = keyOf d"
  using assms
  by (auto simp: newNFSService_def newObjectMeta_def Let_def keyOf_def
      dest!: SetControllerReference_meta split: sum.splits if_splits)

lemma newCephNetworkFilesystemInstance_meta:
  assumes "newCephNetworkFilesystemInstance h r p = Inr d"
  shows "Namespace (ObjectMeta d) = Namespace (ObjectMeta p)"
    and "DeletionTimestamp (ObjectMeta d) = None"
    and "IsZero (DeletionTimestamp (ObjectMeta d))"
    and "NamespacedName (Namespace (ObjectMeta p)) (Name (ObjectMeta d)) = keyOf d"
    and "NamespacedName (Namespace (ObjectMeta d)) (Name (ObjectMeta d)) = keyOf d"
  using assms
  by (auto simp: newCephNetworkFilesystemInstance_def newObjectMeta_def Let_def keyOf_def
      dest!: SetControllerReference_meta split: sum.splits if_splits)

lemma newCephNFSInstance_meta:
  assumes "newCephNFSInstance h r p = Inr d"
  shows "Namespace (ObjectMeta d) = Namespace (ObjectMeta p)"
    and "DeletionTimestamp (ObjectMeta d) = None"
    and "IsZero (DeletionTimestamp (ObjectMeta d))"
    and "NamespacedName (Namespace (ObjectMeta p)) (Name (ObjectMeta d)) = keyOf d"
    and "NamespacedName (Namespace (ObjectMeta d)) (Name (ObjectMeta d)) = keyOf d"
  using assms
  by (auto simp: newCephNFSInstance_def newObjectMeta_def Let_def keyOf_def
      dest!: SetControllerReference_meta split: sum.splits if_splits)

lemma newCephNFSBlockPoolInstance_meta:
  assumes "newCephNFSBlockPoolInstance h r p = Inr d"
  shows "Namespace (ObjectMeta d) = Namespace (ObjectMeta p)"
    and "DeletionTimestamp (ObjectMeta d) = None"
    and "IsZero (DeletionTimestamp (ObjectMeta d))"
    and "NamespacedName (Namespace (ObjectMeta p)) (Name (ObjectMeta d)) = keyOf d"
    and "NamespacedName (Namespace (ObjectMeta d)) (Name (ObjectMeta d)) = keyOf d"
  using assms
  by (auto simp: newCephNFSBlockPoolInstance_def newObjectMeta_def Let_def keyOf_def
      dest!: SetControllerReference_meta split: sum.splits if_splits)

lemma ocsCephNFSService_newNFSService_meta:
  assumes "ocsCephNFSService_newNFSService r p = Inr d"
  shows "Namespace (ObjectMeta d) = Namespace (ObjectMeta p)"
    and "DeletionTimestamp (ObjectMeta d) = None"
    and "IsZero (DeletionTimestamp (ObjectMeta d))"
    and "NamespacedName (Namespace (ObjectMeta p)) (Name (ObjectMeta d)) = keyOf d"
    and "NamespacedName (Namespace (ObjectMeta d)) (Name (ObjectMeta d)) = keyOf d"
  using assms
  by (auto simp: ocsCephNFSService_newNFSService_def newObjectMeta_def Let_def keyOf_def
      dest!: SetControllerReference_meta split: sum.splits if_splits)

subsection \<open>The concrete inputs evaluated\<close>

lemma ocsinit_enabled: "\<not> nfsDisabled ocsinit"
  by (simp add: nfsDisabled_def ocsinit_def)

lemma ocsinitDisabled_disabled: "nfsDisabled ocsinitDisabled"
  by (simp add: nfsDisabled_def ocsinitDisabled_def)

lemma ocsinit_fields:
  "Namespace (ObjectMeta ocsinit) = ''openshift-storage''"
  "Name (ObjectMeta ocsinit) = ''ocsinit''"
  "Network (Spec ocsinit) = None"
  "Resources (Spec ocsinit) = []"
  by (simp_all add: ocsinit_def newObjectMeta_def)

lemma SetControllerReference_ocsinit:
  "SetControllerReference ocsinit (newObjectMeta n ''openshift-storage'') (Some storageClusterGVK)
     = Inr (ownedMeta n)"
  by (simp add: SetControllerReference_def ocsinit_def newObjectMeta_def storageClusterGVK_def
      ownedMeta_def ocsinitOwner_def)

lemma ownedMeta_fields:
  "Name (ownedMeta n) = n"
  "Namespace (ownedMeta n) = ''openshift-storage''"
  "DeletionTimestamp (ownedMeta n) = None"
  "OwnerReferences (ownedMeta n) = [ocsinitOwner]"
  "Finalizers (ownedMeta n) = []"
  by (simp_all add: ownedMeta_def newObjectMeta_def)

lemma exampleHelpers_simps:
  "getPlacement exampleHelpers sc tag = \<lparr>NodeAffinity = [], Tolerations = []\<rparr>"
  "GetDaemonResources exampleHelpers tag overrides = \<lparr>Limits = [(''cpu'', ''1'')], Requests = []\<rparr>"
  "openshiftUserCritical exampleHelpers = ''openshift-user-critical''"
  "getFailureDomain exampleHelpers sc = ''host''"
  "generateCephReplicatedSpec exampleHelpers sc tag = \<lparr>Size = 3, ReplicasPerFailureDomain = 1\<rparr>"
  "generateNameForCephNFSBlockPool exampleHelpers sc = Name (ObjectMeta sc) @ ''-cephnfs-builtin-pool''"
  by (simp_all add: exampleHelpers_def)

lemmas generateName_defs =
  generateNameForNFSService_def generateNameForCephNFS_def
  generateNameForCephNetworkFilesystem_def

lemma newNFSService_ocsinit:
  "newNFSService (reconciler c (Some storageClusterGVK)) ocsinit = Inr desiredNFSService"
  by (simp add: newNFSService_def Let_def ocsinit_fields SetControllerReference_ocsinit
      generateName_defs exampleHelpers_simps desiredNFSService_def desiredGaneshaSpec_def
      ProtocolTCP_def)

lemma desiredNFSService_fields:
  "keyOf desiredNFSService = NamespacedName ''openshift-storage'' ''ocsinit-cephnfs-service''"
  "Name (ObjectMeta desiredNFSService) = ''ocsinit-cephnfs-service''"
  "DeletionTimestamp (ObjectMeta desiredNFSService) = None"
  "Finalizers (ObjectMeta desiredNFSService) = []"
  by (simp_all add: keyOf_def desiredNFSService_def ownedMeta_fields)

lemma newCephNetworkFilesystemInstance_ocsinit:
  "newCephNetworkFilesystemInstance exampleHelpers (reconciler c (Some storageClusterGVK)) ocsinit = Inr desiredCephNetworkFilesystem"
  by (simp add: newCephNetworkFilesystemInstance_def Let_def ocsinit_fields SetControllerReference_ocsinit
      generateName_defs exampleHelpers_simps desiredCephNetworkFilesystem_def desiredGaneshaSpec_def
      ProtocolTCP_def)

lemma desiredCephNetworkFilesystem_fields:
  "keyOf desiredCephNetworkFilesystem = NamespacedName ''openshift-storage'' ''ocsinit-cephnetworkfilesystem''"
  "Name (ObjectMeta desiredCephNetworkFilesystem) = ''ocsinit-cephnetworkfilesystem''"
  "DeletionTimestamp (ObjectMeta desiredCephNetworkFilesystem) = None"
  "Finalizers (ObjectMeta desiredCephNetworkFilesystem) = []"
  by (simp_all add: keyOf_def desiredCephNetworkFilesystem_def ownedMeta_fields)

lemma newCephNFSInstance_ocsinit:
  "newCephNFSInstance exampleHelpers (reconciler c (Some storageClusterGVK)) ocsinit = Inr desiredCephNFS"
  by (simp add: newCephNFSInstance_def Let_def ocsinit_fields SetControllerReference_ocsinit
      generateName_defs exampleHelpers_simps desiredCephNFS_def desiredGaneshaSpec_def
      ProtocolTCP_def)

lemma desiredCephNFS_fields:
  "keyOf desiredCephNFS = NamespacedName ''openshift-storage'' ''ocsinit-cephnfs''"
  "Name (ObjectMeta desiredCephNFS) = ''ocsinit-cephnfs''"
  "DeletionTimestamp (ObjectMeta desiredCephNFS) = None"
  "Finalizers (ObjectMeta desiredCephNFS) = []"
  by (simp_all add: keyOf_def desiredCephNFS_def ownedMeta_fields)

lemma newCephNFSBlockPoolInstance_ocsinit:
  "newCephNFSBlockPoolInstance exampleHelpers (reconciler c (Some storageClusterGVK)) ocsinit = Inr desiredCephBlockPool"
  by (simp add: newCephNFSBlockPoolInstance_def Let_def ocsinit_fields SetControllerReference_ocsinit
      generateName_defs exampleHelpers_simps desiredCephBlockPool_def desiredGaneshaSpec_def
      ProtocolTCP_def)

lemma desiredCephBlockPool_fields:
  "keyOf desiredCephBlockPool = NamespacedName ''openshift-storage'' ''ocsinit-cephnfs-builtin-pool''"
  "Name (ObjectMeta desiredCephBlockPool) = ''ocsinit-cephnfs-builtin-pool''"
  "DeletionTimestamp (ObjectMeta desiredCephBlockPool) = None"
  "Finalizers (ObjectMeta desiredCephBlockPool) = []"
  by (simp_all add: keyOf_def desiredCephBlockPool_def ownedMeta_fields)

lemma ocsCephNFSService_newNFSService_ocsinit:
  "ocsCephNFSService_newNFSService (reconciler c (Some storageClusterGVK)) ocsinit = Inr desiredCephNFSService"
  by (simp add: ocsCephNFSService_newNFSService_def Let_def ocsinit_fields SetControllerReference_ocsinit
      generateName_defs exampleHelpers_simps desiredCephNFSService_def desiredGaneshaSpec_def
      ProtocolTCP_def)

lemma desiredCephNFSService_fields:
  "keyOf desiredCephNFSService = NamespacedName ''openshift-storage'' ''ocsinit-cephnfs-service''"
  "Name (ObjectMeta desiredCephNFSService) = ''ocsinit-cephnfs-service''"
  "DeletionTimestamp (ObjectMeta desiredCephNFSService) = None"
  "Finalizers (ObjectMeta desiredCephNFSService) = []"
  by (simp_all add: keyOf_def desiredCephNFSService_def ownedMeta_fields)

lemma markedForDeletion_fields:
  "keyOf (markedForDeletion obj) = keyOf obj"
  "Name (ObjectMeta (markedForDeletion obj)) = Name (ObjectMeta obj)"
  "DeletionTimestamp (ObjectMeta (markedForDeletion obj)) = Some 100"
  "Finalizers (ObjectMeta (markedForDeletion obj)) = [''kubernetes.io/pvc-protection'']"
  by (simp_all add: markedForDeletion_def keyOf_def)

lemma withFinalizer_fields:
  "keyOf (withFinalizer obj) = keyOf obj"
  "Name (ObjectMeta (withFinalizer obj)) = Name (ObjectMeta obj)"
  "DeletionTimestamp (ObjectMeta (withFinalizer obj)) = DeletionTimestamp (ObjectMeta obj)"
  "Finalizers (ObjectMeta (withFinalizer obj)) = [''kubernetes.io/pvc-protection'']"
  by (simp_all add: withFinalizer_def keyOf_def)

lemma clusterWith_fields:
  "objects (clusterWith obj) = (\<lambda>key. None)(keyOf obj \<mapsto> obj)"
  "injected (clusterWith obj) = None"
  "consume (clusterWith obj) = clusterWith obj"
  "clock (clusterWith obj) = 100"
  by (simp_all add: clusterWith_def injected_def consume_def)

lemma emptyCluster_fields:
  "objects emptyCluster = (\<lambda>key. None)"
  "injected emptyCluster = None"
  "consume emptyCluster = emptyCluster"
  by (simp_all add: emptyCluster_def injected_def consume_def)

lemma failingCluster_fields:
  "injected failingCluster = Some serverTimeout"
  "consume failingCluster = emptyCluster"
  "\<not> IsNotFound serverTimeout"
  by (simp_all add: failingCluster_def emptyCluster_def injected_def consume_def serverTimeout_def)

lemma clusterGet_clusterWith:
  "clusterGet (keyOf obj) (clusterWith obj) = (Inr obj, clusterWith obj)"
  by (simp add: clusterGet_def clusterWith_fields)

lemma clusterGet_emptyCluster:
  "clusterGet key emptyCluster = (Inl (notFound key), emptyCluster)"
  by (simp add: clusterGet_def emptyCluster_fields)

lemma clusterGet_failingCluster:
  "clusterGet key failingCluster = (Inl serverTimeout, emptyCluster)"
  by (simp add: clusterGet_def failingCluster_fields)

lemma IsNotFound_notFound: "IsNotFound (notFound key)"
  by (simp add: notFound_def)

text \<open>The reference client on these states.\<close>

lemma Get_clusterWith:
  "Get clusterClient (keyOf obj) (clusterWith obj) = (Inr obj, clusterWith obj)"
  by (simp add: clusterGet_clusterWith clusterClient_simps)

lemma Get_emptyCluster:
  "Get clusterClient key emptyCluster = (Inl (notFound key), emptyCluster)"
  by (simp add: clusterGet_emptyCluster clusterClient_simps)

lemma Get_failingCluster:
  "Get clusterClient key failingCluster = (Inl serverTimeout, emptyCluster)"
  by (simp add: clusterGet_failingCluster clusterClient_simps)

lemma Get_marked:
  "Get clusterClient (keyOf obj) (clusterWith (markedForDeletion obj)) =
     (Inr (markedForDeletion obj), clusterWith (markedForDeletion obj))"
  using clusterGet_clusterWith [of "markedForDeletion obj"]
  by (simp add: markedForDeletion_fields clusterClient_simps)

lemma marked_timestamp: "DeletionTimestamp (ObjectMeta (markedForDeletion obj)) \<noteq> None"
  by (simp add: markedForDeletion_fields)

lemma Get_withFinalizer:
  "Get clusterClient (keyOf obj) (clusterWith (withFinalizer obj)) =
     (Inr (withFinalizer obj), clusterWith (withFinalizer obj))"
  using clusterGet_clusterWith [of "withFinalizer obj"]
  by (simp add: withFinalizer_fields clusterClient_simps)

lemma Delete_plain:
  "Finalizers (ObjectMeta obj) = [] \<Longrightarrow>
     Delete clusterClient obj (clusterWith obj) = (None, emptyCluster)"
  by (simp add: clusterClient_simps clusterDelete_def clusterWith_fields)
     (simp add: clusterWith_def emptyCluster_def consume_def)

lemma Delete_withFinalizer:
  "DeletionTimestamp (ObjectMeta obj) = None \<Longrightarrow>
     Delete clusterClient (withFinalizer obj) (clusterWith (withFinalizer obj)) =
       (None, clusterWith (markedForDeletion obj))"
  by (simp add: clusterClient_simps clusterDelete_def clusterWith_fields withFinalizer_fields)
     (simp add: clusterWith_def consume_def withFinalizer_def markedForDeletion_def keyOf_def)

lemma Delete_marked:
  "Delete clusterClient (markedForDeletion obj) (clusterWith (markedForDeletion obj)) =
     (None, clusterWith (markedForDeletion obj))"
  by (simp add: clusterClient_simps clusterDelete_def clusterWith_fields markedForDeletion_fields)

lemma Create_emptyCluster:
  "Create clusterClient obj emptyCluster = (None, clusterWith obj)"
  by (simp add: clusterClient_simps clusterCreate_def emptyCluster_fields)
     (simp add: clusterWith_def emptyCluster_def consume_def)

lemma Update_clusterWith:
  "keyOf obj' = keyOf obj \<Longrightarrow> obj' \<noteq> obj \<Longrightarrow>
     Update clusterClient obj' (clusterWith obj) = (None, clusterWith obj')"
  by (simp add: clusterClient_simps clusterUpdate_def clusterWith_fields)
     (simp add: clusterWith_def consume_def)

section \<open>Disabling the feature drives deletion\<close>

text \<open>
  C3. For a parent whose NFS feature flag is absent or false, \<^verbatim>\<open>ensureCreated\<close> returns
  exactly what \<^verbatim>\<open>ensureDeleted\<close> returns on the same parent and the same substrate
  state: the same requeue hint, the same error and the same substrate state afterwards.
  This holds for each of the five reconcilers and for every client.
\<close>

theorem C3_disabled_ensureCreated_is_ensureDeleted:
  assumes "nfsDisabled p"
  shows "ocsNFSService_ensureCreated rS p sS =
           ocsNFSService_ensureDeleted rS p sS \<and>
         ocsCephNetworkFilesystem_ensureCreated h rN p sN =
           ocsCephNetworkFilesystem_ensureDeleted h rN p sN \<and>
         ocsCephNFS_ensureCreated h rN p sN =
           ocsCephNFS_ensureDeleted h rN p sN \<and>
         ocsCephNFSBlockPool_ensureCreated h rB p sB =
           ocsCephNFSBlockPool_ensureDeleted h rB p sB \<and>
         ocsCephNFSService_ensureCreated rS p sS =
           ocsCephNFSService_ensureDeleted rS p sS"
  using assms
  by (simp add: ocsNFSService_ensureCreated_def
      ocsCephNetworkFilesystem_ensureCreated_def
      ocsCephNFS_ensureCreated_def
      ocsCephNFSBlockPool_ensureCreated_def
      ocsCephNFSService_ensureCreated_def)

theorem C3_witness:
  "nfsDisabled ocsinitDisabled \<and>
   ocsNFSService_ensureCreated (reconciler clusterClient (Some storageClusterGVK))
       ocsinitDisabled (emptyCluster, []) =
     ocsNFSService_ensureDeleted (reconciler clusterClient (Some storageClusterGVK))
       ocsinitDisabled (emptyCluster, []) \<and>
   ocsCephNetworkFilesystem_ensureCreated exampleHelpers (reconciler clusterClient (Some storageClusterGVK))
       ocsinitDisabled (emptyCluster, []) =
     ocsCephNetworkFilesystem_ensureDeleted exampleHelpers (reconciler clusterClient (Some storageClusterGVK))
       ocsinitDisabled (emptyCluster, []) \<and>
   ocsCephNFS_ensureCreated exampleHelpers (reconciler clusterClient (Some storageClusterGVK))
       ocsinitDisabled (emptyCluster, []) =
     ocsCephNFS_ensureDeleted exampleHelpers (reconciler clusterClient (Some storageClusterGVK))
       ocsinitDisabled (emptyCluster, []) \<and>
   ocsCephNFSBlockPool_ensureCreated exampleHelpers (reconciler clusterClient (Some storageClusterGVK))
       ocsinitDisabled (emptyCluster, []) =
     ocsCephNFSBlockPool_ensureDeleted exampleHelpers (reconciler clusterClient (Some storageClusterGVK))
       ocsinitDisabled (emptyCluster, []) \<and>
   ocsCephNFSService_ensureCreated (reconciler clusterClient (Some storageClusterGVK))
       ocsinitDisabled (emptyCluster, []) =
     ocsCephNFSService_ensureDeleted (reconciler clusterClient (Some storageClusterGVK))
       ocsinitDisabled (emptyCluster, [])"
  by (rule conjI [OF ocsinitDisabled_disabled
        C3_disabled_ensureCreated_is_ensureDeleted [OF ocsinitDisabled_disabled]])

section \<open>The requeue hint\<close>

lemma ocsNFSService_ensureDeleted_result:
  "fst (fst (ocsNFSService_ensureDeleted r p s)) = emptyResult"
  unfolding ocsNFSService_ensureDeleted_def
  by (simp split: sum.split prod.split option.split)

lemma ocsNFSService_ensureCreated_result:
  "fst (fst (ocsNFSService_ensureCreated r p s)) = emptyResult"
  unfolding ocsNFSService_ensureCreated_def Let_def
  by (simp add: ocsNFSService_ensureDeleted_result split: sum.split prod.split option.split)

lemma ocsCephNetworkFilesystem_ensureDeleted_result:
  "fst (fst (ocsCephNetworkFilesystem_ensureDeleted h r p s)) = emptyResult"
  unfolding ocsCephNetworkFilesystem_ensureDeleted_def
  by (simp split: sum.split prod.split option.split)

lemma ocsCephNetworkFilesystem_ensureCreated_result:
  "fst (fst (ocsCephNetworkFilesystem_ensureCreated h r p s)) = emptyResult"
  unfolding ocsCephNetworkFilesystem_ensureCreated_def Let_def
  by (simp add: ocsCephNetworkFilesystem_ensureDeleted_result split: sum.split prod.split option.split)

lemma ocsCephNFS_ensureDeleted_result:
  "fst (fst (ocsCephNFS_ensureDeleted h r p s)) = emptyResult"
  unfolding ocsCephNFS_ensureDeleted_def
  by (simp split: sum.split prod.split option.split)

lemma ocsCephNFS_ensureCreated_result:
  "fst (fst (ocsCephNFS_ensureCreated h r p s)) = emptyResult"
  unfolding ocsCephNFS_ensureCreated_def Let_def
  by (simp add: ocsCephNFS_ensureDeleted_result split: sum.split prod.split option.split)

lemma ocsCephNFSBlockPool_ensureDeleted_result:
  "fst (fst (ocsCephNFSBlockPool_ensureDeleted h r p s)) = emptyResult"
  unfolding ocsCephNFSBlockPool_ensureDeleted_def
  by (simp split: sum.split prod.split option.split)

lemma ocsCephNFSBlockPool_ensureCreated_result:
  "fst (fst (ocsCephNFSBlockPool_ensureCreated h r p s)) = emptyResult"
  unfolding ocsCephNFSBlockPool_ensureCreated_def Let_def
  by (simp add: ocsCephNFSBlockPool_ensureDeleted_result split: sum.split prod.split option.split)

lemma ocsCephNFSService_ensureDeleted_result:
  "fst (fst (ocsCephNFSService_ensureDeleted r p s)) = emptyResult"
  unfolding ocsCephNFSService_ensureDeleted_def
  by (simp split: sum.split prod.split option.split)

lemma ocsCephNFSService_ensureCreated_result:
  "fst (fst (ocsCephNFSService_ensureCreated r p s)) = emptyResult"
  unfolding ocsCephNFSService_ensureCreated_def Let_def
  by (simp add: ocsCephNFSService_ensureDeleted_result split: sum.split prod.split option.split)

text \<open>
  C10. Every return path of \<^verbatim>\<open>ensureCreated\<close> and \<^verbatim>\<open>ensureDeleted\<close>, for all managed
  kinds, returns the zero-valued requeue hint (no requeue flag, zero delay): whatever
  the parent, the client and the substrate state, the first component of the outcome is
  \<^verbatim>\<open>reconcile.Result{}\<close>. A need to retry, the "waiting to be deleted" outcome
  included, can therefore only show in the error value.
\<close>

theorem C10_requeue_hint_always_zero:
  "fst (fst (ocsNFSService_ensureCreated rS p sS)) =
     \<lparr>Requeue = False, RequeueAfter = 0\<rparr> \<and>
   fst (fst (ocsNFSService_ensureDeleted rS p sS)) =
     \<lparr>Requeue = False, RequeueAfter = 0\<rparr> \<and>
   fst (fst (ocsCephNetworkFilesystem_ensureCreated h rN p sN)) =
     \<lparr>Requeue = False, RequeueAfter = 0\<rparr> \<and>
   fst (fst (ocsCephNetworkFilesystem_ensureDeleted h rN p sN)) =
     \<lparr>Requeue = False, RequeueAfter = 0\<rparr> \<and>
   fst (fst (ocsCephNFS_ensureCreated h rN p sN)) =
     \<lparr>Requeue = False, RequeueAfter = 0\<rparr> \<and>
   fst (fst (ocsCephNFS_ensureDeleted h rN p sN)) =
     \<lparr>Requeue = False, RequeueAfter = 0\<rparr> \<and>
   fst (fst (ocsCephNFSBlockPool_ensureCreated h rB p sB)) =
     \<lparr>Requeue = False, RequeueAfter = 0\<rparr> \<and>
   fst (fst (ocsCephNFSBlockPool_ensureDeleted h rB p sB)) =
     \<lparr>Requeue = False, RequeueAfter = 0\<rparr> \<and>
   fst (fst (ocsCephNFSService_ensureCreated rS p sS)) =
     \<lparr>Requeue = False, RequeueAfter = 0\<rparr> \<and>
   fst (fst (ocsCephNFSService_ensureDeleted rS p sS)) =
     \<lparr>Requeue = False, RequeueAfter = 0\<rparr>"
  by (simp add: emptyResult_def [symmetric]
      ocsNFSService_ensureCreated_result ocsNFSService_ensureDeleted_result
      ocsCephNetworkFilesystem_ensureCreated_result ocsCephNetworkFilesystem_ensureDeleted_result
      ocsCephNFS_ensureCreated_result ocsCephNFS_ensureDeleted_result
      ocsCephNFSBlockPool_ensureCreated_result ocsCephNFSBlockPool_ensureDeleted_result
      ocsCephNFSService_ensureCreated_result ocsCephNFSService_ensureDeleted_result)

theorem C10_witness:
  "fst (fst (ocsNFSService_ensureCreated (reconciler clusterClient (Some storageClusterGVK))
               ocsinit (failingCluster, []))) =
     \<lparr>Requeue = False, RequeueAfter = 0\<rparr> \<and>
   fst (fst (ocsNFSService_ensureDeleted (reconciler clusterClient (Some storageClusterGVK))
               ocsinit (failingCluster, []))) =
     \<lparr>Requeue = False, RequeueAfter = 0\<rparr> \<and>
   fst (fst (ocsCephNetworkFilesystem_ensureCreated exampleHelpers (reconciler clusterClient (Some storageClusterGVK))
               ocsinit (failingCluster, []))) =
     \<lparr>Requeue = False, RequeueAfter = 0\<rparr> \<and>
   fst (fst (ocsCephNetworkFilesystem_ensureDeleted exampleHelpers (reconciler clusterClient (Some storageClusterGVK))
               ocsinit (failingCluster, []))) =
     \<lparr>Requeue = False, RequeueAfter = 0\<rparr> \<and>
   fst (fst (ocsCephNFS_ensureCreated exampleHelpers (reconciler clusterClient (Some storageClusterGVK))
               ocsinit (failingCluster, []))) =
     \<lparr>Requeue = False, RequeueAfter = 0\<rparr> \<and>
   fst (fst (ocsCephNFS_ensureDeleted exampleHelpers (reconciler clusterClient (Some storageClusterGVK))
               ocsinit (failingCluster, []))) =
     \<lparr>Requeue = False, RequeueAfter = 0\<rparr> \<and>
   fst (fst (ocsCephNFSBlockPool_ensureCreated exampleHelpers (reconciler clusterClient (Some storageClusterGVK))
               ocsinit (failingCluster, []))) =
     \<lparr>Requeue = False, RequeueAfter = 0\<rparr> \<and>
   fst (fst (ocsCephNFSBlockPool_ensureDeleted exampleHelpers (reconciler clusterClient (Some storageClusterGVK))
               ocsinit (failingCluster, []))) =
     \<lparr>Requeue = False, RequeueAfter = 0\<rparr> \<and>
   fst (fst (ocsCephNFSService_ensureCreated (reconciler clusterClient (Some storageClusterGVK))
               ocsinit (failingCluster, []))) =
     \<lparr>Requeue = False, RequeueAfter = 0\<rparr> \<and>
   fst (fst (ocsCephNFSService_ensureDeleted (reconciler clusterClient (Some storageClusterGVK))
               ocsinit (failingCluster, []))) =
     \<lparr>Requeue = False, RequeueAfter = 0\<rparr>"
  by (rule C10_requeue_hint_always_zero
      [where rS = "reconciler clusterClient (Some storageClusterGVK)"
         and rN = "reconciler clusterClient (Some storageClusterGVK)"
         and rB = "reconciler clusterClient (Some storageClusterGVK)"
         and h = exampleHelpers and p = ocsinit
         and sS = "(failingCluster, [])" and sN = "(failingCluster, [])"
         and sB = "(failingCluster, [])"])

section \<open>A live object pending deletion is never restored\<close>

lemma ocsNFSService_pending_deletion:
  assumes "\<not> nfsDisabled p"
    and "newNFSService (reconciler c sch) p = Inr d"
    and "Get c (keyOf d) s = (Inr e, s1)"
    and "DeletionTimestamp (ObjectMeta e) \<noteq> None"
  shows "ocsNFSService_ensureCreated (reconciler c sch) p (s, log) =
           ((emptyResult, Some (Errorf (''failed to restore initialization object '' @
                 Name (ObjectMeta e) @ '' because it is marked for deletion''))),
            (s1, log @ [CallGet (keyOf d)]))"
  using assms by (simp add: ocsNFSService_ensureCreated_def newNFSService_meta)

lemma ocsCephNetworkFilesystem_pending_deletion:
  assumes "\<not> nfsDisabled p"
    and "newCephNetworkFilesystemInstance h (reconciler c sch) p = Inr d"
    and "Get c (keyOf d) s = (Inr e, s1)"
    and "DeletionTimestamp (ObjectMeta e) \<noteq> None"
  shows "ocsCephNetworkFilesystem_ensureCreated h (reconciler c sch) p (s, log) =
           ((emptyResult, Some (Errorf (''failed to restore initialization object '' @
                 Name (ObjectMeta e) @ '' because it is marked for deletion''))),
            (s1, log @ [CallGet (keyOf d)]))"
  using assms by (simp add: ocsCephNetworkFilesystem_ensureCreated_def newCephNetworkFilesystemInstance_meta)

lemma ocsCephNFS_pending_deletion:
  assumes "\<not> nfsDisabled p"
    and "newCephNFSInstance h (reconciler c sch) p = Inr d"
    and "Get c (keyOf d) s = (Inr e, s1)"
    and "DeletionTimestamp (ObjectMeta e) \<noteq> None"
  shows "ocsCephNFS_ensureCreated h (reconciler c sch) p (s, log) =
           ((emptyResult, Some (Errorf (''failed to restore initialization object '' @
                 Name (ObjectMeta e) @ '' because it is marked for deletion''))),
            (s1, log @ [CallGet (keyOf d)]))"
  using assms by (simp add: ocsCephNFS_ensureCreated_def newCephNFSInstance_meta)

lemma ocsCephNFSBlockPool_pending_deletion:
  assumes "\<not> nfsDisabled p"
    and "newCephNFSBlockPoolInstance h (reconciler c sch) p = Inr d"
    and "Get c (keyOf d) s = (Inr e, s1)"
    and "DeletionTimestamp (ObjectMeta e) \<noteq> None"
  shows "ocsCephNFSBlockPool_ensureCreated h (reconciler c sch) p (s, log) =
           ((emptyResult, Some (Errorf (''failed to restore initialization object '' @
                 Name (ObjectMeta e) @ '' because it is marked for deletion''))),
            (s1, log @ [CallGet (keyOf d)]))"
  using assms by (simp add: ocsCephNFSBlockPool_ensureCreated_def newCephNFSBlockPoolInstance_meta)

lemma ocsCephNFSService_pending_deletion:
  assumes "\<not> nfsDisabled p"
    and "ocsCephNFSService_newNFSService (reconciler c sch) p = Inr d"
    and "Get c (keyOf d) s = (Inr e, s1)"
    and "DeletionTimestamp (ObjectMeta e) \<noteq> None"
  shows "ocsCephNFSService_ensureCreated (reconciler c sch) p (s, log) =
           ((emptyResult, Some (Errorf (''failed to restore initialization object '' @
                 Name (ObjectMeta e) @ '' because it is marked for deletion''))),
            (s1, log @ [CallGet (keyOf d)]))"
  using assms by (simp add: ocsCephNFSService_ensureCreated_def ocsCephNFSService_newNFSService_meta)

text \<open>
  C2. For a parent with the feature enabled: if the live managed resource is found and
  is already marked for deletion (its deletion timestamp is not nil), \<^verbatim>\<open>ensureCreated\<close>
  returns the pending-deletion error, and the fetch is the only call it issues: no
  create and no update reaches the substrate, whose state is the one the fetch left.
\<close>

theorem C2_pending_deletion_rejected:
  assumes "\<not> nfsDisabled p"
  shows "(\<forall>d e s1. newNFSService (reconciler cS sch) p = Inr d \<longrightarrow>
            Get cS (keyOf d) sS = (Inr e, s1) \<longrightarrow>
            DeletionTimestamp (ObjectMeta e) \<noteq> None \<longrightarrow>
            ocsNFSService_ensureCreated (reconciler cS sch) p (sS, logS) =
              ((emptyResult, Some (Errorf (''failed to restore initialization object '' @
                 Name (ObjectMeta e) @ '' because it is marked for deletion''))),
               (s1, logS @ [CallGet (keyOf d)]))) \<and>
        (\<forall>d e s1. newCephNetworkFilesystemInstance h (reconciler cN sch) p = Inr d \<longrightarrow>
            Get cN (keyOf d) sN = (Inr e, s1) \<longrightarrow>
            DeletionTimestamp (ObjectMeta e) \<noteq> None \<longrightarrow>
            ocsCephNetworkFilesystem_ensureCreated h (reconciler cN sch) p (sN, logN) =
              ((emptyResult, Some (Errorf (''failed to restore initialization object '' @
                 Name (ObjectMeta e) @ '' because it is marked for deletion''))),
               (s1, logN @ [CallGet (keyOf d)]))) \<and>
        (\<forall>d e s1. newCephNFSInstance h (reconciler cN sch) p = Inr d \<longrightarrow>
            Get cN (keyOf d) sN = (Inr e, s1) \<longrightarrow>
            DeletionTimestamp (ObjectMeta e) \<noteq> None \<longrightarrow>
            ocsCephNFS_ensureCreated h (reconciler cN sch) p (sN, logN) =
              ((emptyResult, Some (Errorf (''failed to restore initialization object '' @
                 Name (ObjectMeta e) @ '' because it is marked for deletion''))),
               (s1, logN @ [CallGet (keyOf d)]))) \<and>
        (\<forall>d e s1. newCephNFSBlockPoolInstance h (reconciler cB sch) p = Inr d \<longrightarrow>
            Get cB (keyOf d) sB = (Inr e, s1) \<longrightarrow>
            DeletionTimestamp (ObjectMeta e) \<noteq> None \<longrightarrow>
            ocsCephNFSBlockPool_ensureCreated h (reconciler cB sch) p (sB, logB) =
              ((emptyResult, Some (Errorf (''failed to restore initialization object '' @
                 Name (ObjectMeta e) @ '' because it is marked for deletion''))),
               (s1, logB @ [CallGet (keyOf d)]))) \<and>
        (\<forall>d e s1. ocsCephNFSService_newNFSService (reconciler cS sch) p = Inr d \<longrightarrow>
            Get cS (keyOf d) sS = (Inr e, s1) \<longrightarrow>
            DeletionTimestamp (ObjectMeta e) \<noteq> None \<longrightarrow>
            ocsCephNFSService_ensureCreated (reconciler cS sch) p (sS, logS) =
              ((emptyResult, Some (Errorf (''failed to restore initialization object '' @
                 Name (ObjectMeta e) @ '' because it is marked for deletion''))),
               (s1, logS @ [CallGet (keyOf d)])))"
  by (intro conjI allI impI)
     (erule (2) ocsNFSService_pending_deletion [OF assms],
      erule (2) ocsCephNetworkFilesystem_pending_deletion [OF assms],
      erule (2) ocsCephNFS_pending_deletion [OF assms],
      erule (2) ocsCephNFSBlockPool_pending_deletion [OF assms],
      erule (2) ocsCephNFSService_pending_deletion [OF assms])

theorem C2_witness:
  "ocsNFSService_ensureCreated (reconciler clusterClient (Some storageClusterGVK))
       ocsinit (clusterWith (markedForDeletion desiredNFSService), []) =
     ((emptyResult,
       Some (Errorf (''failed to restore initialization object ocsinit-cephnfs-service because it is marked for deletion''))),
      (clusterWith (markedForDeletion desiredNFSService),
       [CallGet (NamespacedName ''openshift-storage'' ''ocsinit-cephnfs-service'')])) \<and>
   ocsCephNetworkFilesystem_ensureCreated exampleHelpers (reconciler clusterClient (Some storageClusterGVK))
       ocsinit (clusterWith (markedForDeletion desiredCephNetworkFilesystem), []) =
     ((emptyResult,
       Some (Errorf (''failed to restore initialization object ocsinit-cephnetworkfilesystem because it is marked for deletion''))),
      (clusterWith (markedForDeletion desiredCephNetworkFilesystem),
       [CallGet (NamespacedName ''openshift-storage'' ''ocsinit-cephnetworkfilesystem'')])) \<and>
   ocsCephNFS_ensureCreated exampleHelpers (reconciler clusterClient (Some storageClusterGVK))
       ocsinit (clusterWith (markedForDeletion desiredCephNFS), []) =
     ((emptyResult,
       Some (Errorf (''failed to restore initialization object ocsinit-cephnfs because it is marked for deletion''))),
      (clusterWith (markedForDeletion desiredCephNFS),
       [CallGet (NamespacedName ''openshift-storage'' ''ocsinit-cephnfs'')])) \<and>
   ocsCephNFSBlockPool_ensureCreated exampleHelpers (reconciler clusterClient (Some storageClusterGVK))
       ocsinit (clusterWith (markedForDeletion desiredCephBlockPool), []) =
     ((emptyResult,
       Some (Errorf (''failed to restore initialization object ocsinit-cephnfs-builtin-pool because it is marked for deletion''))),
      (clusterWith (markedForDeletion desiredCephBlockPool),
       [CallGet (NamespacedName ''openshift-storage'' ''ocsinit-cephnfs-builtin-pool'')])) \<and>
   ocsCephNFSService_ensureCreated (reconciler clusterClient (Some storageClusterGVK))
       ocsinit (clusterWith (markedForDeletion desiredCephNFSService), []) =
     ((emptyResult,
       Some (Errorf (''failed to restore initialization object ocsinit-cephnfs-service because it is marked for deletion''))),
      (clusterWith (markedForDeletion desiredCephNFSService),
       [CallGet (NamespacedName ''openshift-storage'' ''ocsinit-cephnfs-service'')]))"
proof -
  note t = C2_pending_deletion_rejected [OF ocsinit_enabled,
      where h = exampleHelpers and sch = "Some storageClusterGVK" and cS = clusterClient
        and cN = clusterClient and cB = clusterClient]
  have k1: "ocsNFSService_ensureCreated (reconciler clusterClient (Some storageClusterGVK))
       ocsinit (clusterWith (markedForDeletion desiredNFSService), []) =
     ((emptyResult,
       Some (Errorf (''failed to restore initialization object ocsinit-cephnfs-service because it is marked for deletion''))),
      (clusterWith (markedForDeletion desiredNFSService),
       [CallGet (NamespacedName ''openshift-storage'' ''ocsinit-cephnfs-service'')]))"
    using t [where sS = "clusterWith (markedForDeletion desiredNFSService)" and logS = "[]",
        THEN conjunct1, rule_format,
        OF newNFSService_ocsinit Get_marked marked_timestamp]
    by (simp add: markedForDeletion_fields desiredNFSService_fields)
  have k2: "ocsCephNetworkFilesystem_ensureCreated exampleHelpers (reconciler clusterClient (Some storageClusterGVK))
       ocsinit (clusterWith (markedForDeletion desiredCephNetworkFilesystem), []) =
     ((emptyResult,
       Some (Errorf (''failed to restore initialization object ocsinit-cephnetworkfilesystem because it is marked for deletion''))),
      (clusterWith (markedForDeletion desiredCephNetworkFilesystem),
       [CallGet (NamespacedName ''openshift-storage'' ''ocsinit-cephnetworkfilesystem'')]))"
    using t [where sN = "clusterWith (markedForDeletion desiredCephNetworkFilesystem)" and logN = "[]",
        THEN conjunct2, THEN conjunct1, rule_format,
        OF newCephNetworkFilesystemInstance_ocsinit Get_marked marked_timestamp]
    by (simp add: markedForDeletion_fields desiredCephNetworkFilesystem_fields)
  have k3: "ocsCephNFS_ensureCreated exampleHelpers (reconciler clusterClient (Some storageClusterGVK))
       ocsinit (clusterWith (markedForDeletion desiredCephNFS), []) =
     ((emptyResult,
       Some (Errorf (''failed to restore initialization object ocsinit-cephnfs because it is marked for deletion''))),
      (clusterWith (markedForDeletion desiredCephNFS),
       [CallGet (NamespacedName ''openshift-storage'' ''ocsinit-cephnfs'')]))"
    using t [where sN = "clusterWith (markedForDeletion desiredCephNFS)" and logN = "[]",
        THEN conjunct2, THEN conjunct2, THEN conjunct1, rule_format,
        OF newCephNFSInstance_ocsinit Get_marked marked_timestamp]
    by (simp add: markedForDeletion_fields desiredCephNFS_fields)
  have k4: "ocsCephNFSBlockPool_ensureCreated exampleHelpers (reconciler clusterClient (Some storageClusterGVK))
       ocsinit (clusterWith (markedForDeletion desiredCephBlockPool), []) =
     ((emptyResult,
       Some (Errorf (''failed to restore initialization object ocsinit-cephnfs-builtin-pool because it is marked for deletion''))),
      (clusterWith (markedForDeletion desiredCephBlockPool),
       [CallGet (NamespacedName ''openshift-storage'' ''ocsinit-cephnfs-builtin-pool'')]))"
    using t [where sB = "clusterWith (markedForDeletion desiredCephBlockPool)" and logB = "[]",
        THEN conjunct2, THEN conjunct2, THEN conjunct2, THEN conjunct1, rule_format,
        OF newCephNFSBlockPoolInstance_ocsinit Get_marked marked_timestamp]
    by (simp add: markedForDeletion_fields desiredCephBlockPool_fields)
  have k5: "ocsCephNFSService_ensureCreated (reconciler clusterClient (Some storageClusterGVK))
       ocsinit (clusterWith (markedForDeletion desiredCephNFSService), []) =
     ((emptyResult,
       Some (Errorf (''failed to restore initialization object ocsinit-cephnfs-service because it is marked for deletion''))),
      (clusterWith (markedForDeletion desiredCephNFSService),
       [CallGet (NamespacedName ''openshift-storage'' ''ocsinit-cephnfs-service'')]))"
    using t [where sS = "clusterWith (markedForDeletion desiredCephNFSService)" and logS = "[]",
        THEN conjunct2, THEN conjunct2, THEN conjunct2, THEN conjunct2, rule_format,
        OF ocsCephNFSService_newNFSService_ocsinit Get_marked marked_timestamp]
    by (simp add: markedForDeletion_fields desiredCephNFSService_fields)
  show ?thesis by (intro conjI k1 k2 k3 k4 k5)
qed

section \<open>Deleting an absent object\<close>

lemma ocsNFSService_absent_on_delete:
  assumes "newNFSService (reconciler c sch) p = Inr d"
    and "Get c (keyOf d) s = (Inl err, s1)"
    and "IsNotFound err"
  shows "ocsNFSService_ensureDeleted (reconciler c sch) p (s, log) =
           ((emptyResult, None), (s1, log @ [CallGet (keyOf d)]))"
  using assms by (simp add: ocsNFSService_ensureDeleted_def newNFSService_meta)

lemma ocsCephNetworkFilesystem_absent_on_delete:
  assumes "newCephNetworkFilesystemInstance h (reconciler c sch) p = Inr d"
    and "Get c (keyOf d) s = (Inl err, s1)"
    and "IsNotFound err"
  shows "ocsCephNetworkFilesystem_ensureDeleted h (reconciler c sch) p (s, log) =
           ((emptyResult, None), (s1, log @ [CallGet (keyOf d)]))"
  using assms by (simp add: ocsCephNetworkFilesystem_ensureDeleted_def newCephNetworkFilesystemInstance_meta)

lemma ocsCephNFS_absent_on_delete:
  assumes "newCephNFSInstance h (reconciler c sch) p = Inr d"
    and "Get c (keyOf d) s = (Inl err, s1)"
    and "IsNotFound err"
  shows "ocsCephNFS_ensureDeleted h (reconciler c sch) p (s, log) =
           ((emptyResult, None), (s1, log @ [CallGet (keyOf d)]))"
  using assms by (simp add: ocsCephNFS_ensureDeleted_def newCephNFSInstance_meta)

lemma ocsCephNFSBlockPool_absent_on_delete:
  assumes "newCephNFSBlockPoolInstance h (reconciler c sch) p = Inr d"
    and "Get c (keyOf d) s = (Inl err, s1)"
    and "IsNotFound err"
  shows "ocsCephNFSBlockPool_ensureDeleted h (reconciler c sch) p (s, log) =
           ((emptyResult, None), (s1, log @ [CallGet (keyOf d)]))"
  using assms by (simp add: ocsCephNFSBlockPool_ensureDeleted_def newCephNFSBlockPoolInstance_meta)

lemma ocsCephNFSService_absent_on_delete:
  assumes "ocsCephNFSService_newNFSService (reconciler c sch) p = Inr d"
    and "Get c (keyOf d) s = (Inl err, s1)"
    and "IsNotFound err"
  shows "ocsCephNFSService_ensureDeleted (reconciler c sch) p (s, log) =
           ((emptyResult, None), (s1, log @ [CallGet (keyOf d)]))"
  using assms by (simp add: ocsCephNFSService_ensureDeleted_def ocsCephNFSService_newNFSService_meta)

text \<open>
  C6. For every parent: if no live managed resource exists, that is, the first fetch
  in \<^verbatim>\<open>ensureDeleted\<close> reports not-found, then \<^verbatim>\<open>ensureDeleted\<close> returns success with
  no error, and that fetch is the only call it issues: no create, no update and no
  delete reaches the substrate.
\<close>

theorem C6_not_found_on_delete_is_success:
  "(\<forall>d err s1. newNFSService (reconciler cS sch) p = Inr d \<longrightarrow>
       Get cS (keyOf d) sS = (Inl err, s1) \<longrightarrow> IsNotFound err \<longrightarrow>
       ocsNFSService_ensureDeleted (reconciler cS sch) p (sS, logS) =
         ((emptyResult, None), (s1, logS @ [CallGet (keyOf d)])) \<and>
       filter isMutating (logS @ [CallGet (keyOf d)]) = filter isMutating logS) \<and>
   (\<forall>d err s1. newCephNetworkFilesystemInstance h (reconciler cN sch) p = Inr d \<longrightarrow>
       Get cN (keyOf d) sN = (Inl err, s1) \<longrightarrow> IsNotFound err \<longrightarrow>
       ocsCephNetworkFilesystem_ensureDeleted h (reconciler cN sch) p (sN, logN) =
         ((emptyResult, None), (s1, logN @ [CallGet (keyOf d)])) \<and>
       filter isMutating (logN @ [CallGet (keyOf d)]) = filter isMutating logN) \<and>
   (\<forall>d err s1. newCephNFSInstance h (reconciler cN sch) p = Inr d \<longrightarrow>
       Get cN (keyOf d) sN = (Inl err, s1) \<longrightarrow> IsNotFound err \<longrightarrow>
       ocsCephNFS_ensureDeleted h (reconciler cN sch) p (sN, logN) =
         ((emptyResult, None), (s1, logN @ [CallGet (keyOf d)])) \<and>
       filter isMutating (logN @ [CallGet (keyOf d)]) = filter isMutating logN) \<and>
   (\<forall>d err s1. newCephNFSBlockPoolInstance h (reconciler cB sch) p = Inr d \<longrightarrow>
       Get cB (keyOf d) sB = (Inl err, s1) \<longrightarrow> IsNotFound err \<longrightarrow>
       ocsCephNFSBlockPool_ensureDeleted h (reconciler cB sch) p (sB, logB) =
         ((emptyResult, None), (s1, logB @ [CallGet (keyOf d)])) \<and>
       filter isMutating (logB @ [CallGet (keyOf d)]) = filter isMutating logB) \<and>
   (\<forall>d err s1. ocsCephNFSService_newNFSService (reconciler cS sch) p = Inr d \<longrightarrow>
       Get cS (keyOf d) sS = (Inl err, s1) \<longrightarrow> IsNotFound err \<longrightarrow>
       ocsCephNFSService_ensureDeleted (reconciler cS sch) p (sS, logS) =
         ((emptyResult, None), (s1, logS @ [CallGet (keyOf d)])) \<and>
       filter isMutating (logS @ [CallGet (keyOf d)]) = filter isMutating logS)"
  by (intro conjI allI impI)
     (erule (2) ocsNFSService_absent_on_delete, simp,
      erule (2) ocsCephNetworkFilesystem_absent_on_delete, simp,
      erule (2) ocsCephNFS_absent_on_delete, simp,
      erule (2) ocsCephNFSBlockPool_absent_on_delete, simp,
      erule (2) ocsCephNFSService_absent_on_delete, simp)

theorem C6_witness:
  "ocsNFSService_ensureDeleted (reconciler clusterClient (Some storageClusterGVK))
       ocsinit (emptyCluster, []) =
     ((emptyResult, None), (emptyCluster, [CallGet (NamespacedName ''openshift-storage'' ''ocsinit-cephnfs-service'')])) \<and>
   ocsCephNetworkFilesystem_ensureDeleted exampleHelpers (reconciler clusterClient (Some storageClusterGVK))
       ocsinit (emptyCluster, []) =
     ((emptyResult, None), (emptyCluster, [CallGet (NamespacedName ''openshift-storage'' ''ocsinit-cephnetworkfilesystem'')])) \<and>
   ocsCephNFS_ensureDeleted exampleHelpers (reconciler clusterClient (Some storageClusterGVK))
       ocsinit (emptyCluster, []) =
     ((emptyResult, None), (emptyCluster, [CallGet (NamespacedName ''openshift-storage'' ''ocsinit-cephnfs'')])) \<and>
   ocsCephNFSBlockPool_ensureDeleted exampleHelpers (reconciler clusterClient (Some storageClusterGVK))
       ocsinit (emptyCluster, []) =
     ((emptyResult, None), (emptyCluster, [CallGet (NamespacedName ''openshift-storage'' ''ocsinit-cephnfs-builtin-pool'')])) \<and>
   ocsCephNFSService_ensureDeleted (reconciler clusterClient (Some storageClusterGVK))
       ocsinit (emptyCluster, []) =
     ((emptyResult, None), (emptyCluster, [CallGet (NamespacedName ''openshift-storage'' ''ocsinit-cephnfs-service'')]))"
proof -
  note t = C6_not_found_on_delete_is_success [
      where h = exampleHelpers and sch = "Some storageClusterGVK" and cS = clusterClient
        and cN = clusterClient and cB = clusterClient and p = ocsinit
        and sS = emptyCluster and sN = emptyCluster and sB = emptyCluster
        and logS = "[]" and logN = "[]" and logB = "[]"]
  have k1: "ocsNFSService_ensureDeleted (reconciler clusterClient (Some storageClusterGVK))
       ocsinit (emptyCluster, []) =
     ((emptyResult, None), (emptyCluster, [CallGet (NamespacedName ''openshift-storage'' ''ocsinit-cephnfs-service'')]))"
    using t [THEN conjunct1, rule_format,
        OF newNFSService_ocsinit Get_emptyCluster IsNotFound_notFound]
    by (simp add: desiredNFSService_fields)
  have k2: "ocsCephNetworkFilesystem_ensureDeleted exampleHelpers (reconciler clusterClient (Some storageClusterGVK))
       ocsinit (emptyCluster, []) =
     ((emptyResult, None), (emptyCluster, [CallGet (NamespacedName ''openshift-storage'' ''ocsinit-cephnetworkfilesystem'')]))"
    using t [THEN conjunct2, THEN conjunct1, rule_format,
        OF newCephNetworkFilesystemInstance_ocsinit Get_emptyCluster IsNotFound_notFound]
    by (simp add: desiredCephNetworkFilesystem_fields)
  have k3: "ocsCephNFS_ensureDeleted exampleHelpers (reconciler clusterClient (Some storageClusterGVK))
       ocsinit (emptyCluster, []) =
     ((emptyResult, None), (emptyCluster, [CallGet (NamespacedName ''openshift-storage'' ''ocsinit-cephnfs'')]))"
    using t [THEN conjunct2, THEN conjunct2, THEN conjunct1, rule_format,
        OF newCephNFSInstance_ocsinit Get_emptyCluster IsNotFound_notFound]
    by (simp add: desiredCephNFS_fields)
  have k4: "ocsCephNFSBlockPool_ensureDeleted exampleHelpers (reconciler clusterClient (Some storageClusterGVK))
       ocsinit (emptyCluster, []) =
     ((emptyResult, None), (emptyCluster, [CallGet (NamespacedName ''openshift-storage'' ''ocsinit-cephnfs-builtin-pool'')]))"
    using t [THEN conjunct2, THEN conjunct2, THEN conjunct2, THEN conjunct1, rule_format,
        OF newCephNFSBlockPoolInstance_ocsinit Get_emptyCluster IsNotFound_notFound]
    by (simp add: desiredCephBlockPool_fields)
  have k5: "ocsCephNFSService_ensureDeleted (reconciler clusterClient (Some storageClusterGVK))
       ocsinit (emptyCluster, []) =
     ((emptyResult, None), (emptyCluster, [CallGet (NamespacedName ''openshift-storage'' ''ocsinit-cephnfs-service'')]))"
    using t [THEN conjunct2, THEN conjunct2, THEN conjunct2, THEN conjunct2, rule_format,
        OF ocsCephNFSService_newNFSService_ocsinit Get_emptyCluster IsNotFound_notFound]
    by (simp add: desiredCephNFSService_fields)
  show ?thesis by (intro conjI k1 k2 k3 k4 k5)
qed

section \<open>The re-fetch after the delete request\<close>

lemma ocsNFSService_refetch:
  assumes "newNFSService (reconciler c sch) p = Inr d"
    and "Get c (keyOf d) s = (Inr found, s1)"
    and "Delete c found s1 = (None, s2)"
    and "Get c (keyOf d) s2 = (res, s3)"
  shows "ocsNFSService_ensureDeleted (reconciler c sch) p (s, log) =
           ((emptyResult,
             if (case res of Inl err \<Rightarrow> IsNotFound err | Inr live \<Rightarrow> False) then None
             else Some (Errorf (''uninstall: Waiting for NFS Service '' @ Name (ObjectMeta d) @ '' to be deleted''))),
            (s3, log @ [CallGet (keyOf d), CallDelete found, CallGet (keyOf d)]))"
  using assms
  by (simp add: ocsNFSService_ensureDeleted_def newNFSService_meta split: sum.split)

lemma ocsCephNetworkFilesystem_refetch:
  assumes "newCephNetworkFilesystemInstance h (reconciler c sch) p = Inr d"
    and "Get c (keyOf d) s = (Inr found, s1)"
    and "Delete c found s1 = (None, s2)"
    and "Get c (keyOf d) s2 = (res, s3)"
  shows "ocsCephNetworkFilesystem_ensureDeleted h (reconciler c sch) p (s, log) =
           ((emptyResult,
             if (case res of Inl err \<Rightarrow> IsNotFound err | Inr live \<Rightarrow> False) then None
             else Some (Errorf (''uninstall: Waiting for cephNetworkFilesystem '' @ Name (ObjectMeta d) @ '' to be deleted''))),
            (s3, log @ [CallGet (keyOf d), CallDelete found, CallGet (keyOf d)]))"
  using assms
  by (simp add: ocsCephNetworkFilesystem_ensureDeleted_def newCephNetworkFilesystemInstance_meta split: sum.split)

lemma ocsCephNFS_refetch:
  assumes "newCephNFSInstance h (reconciler c sch) p = Inr d"
    and "Get c (keyOf d) s = (Inr found, s1)"
    and "Delete c found s1 = (None, s2)"
    and "Get c (keyOf d) s2 = (res, s3)"
  shows "ocsCephNFS_ensureDeleted h (reconciler c sch) p (s, log) =
           ((emptyResult,
             if (case res of Inl err \<Rightarrow> IsNotFound err | Inr live \<Rightarrow> False) then None
             else Some (Errorf (''uninstall: Waiting for CephNFS '' @ Name (ObjectMeta d) @ '' to be deleted''))),
            (s3, log @ [CallGet (keyOf d), CallDelete found, CallGet (keyOf d)]))"
  using assms
  by (simp add: ocsCephNFS_ensureDeleted_def newCephNFSInstance_meta split: sum.split)

lemma ocsCephNFSBlockPool_refetch:
  assumes "newCephNFSBlockPoolInstance h (reconciler c sch) p = Inr d"
    and "Get c (keyOf d) s = (Inr found, s1)"
    and "Delete c found s1 = (None, s2)"
    and "Get c (keyOf d) s2 = (res, s3)"
  shows "ocsCephNFSBlockPool_ensureDeleted h (reconciler c sch) p (s, log) =
           ((emptyResult,
             if (case res of Inl err \<Rightarrow> IsNotFound err | Inr live \<Rightarrow> False) then None
             else Some (Errorf (''uninstall: Waiting for CephBlockPool '' @ Name (ObjectMeta d) @ '' to be deleted''))),
            (s3, log @ [CallGet (keyOf d), CallDelete found, CallGet (keyOf d)]))"
  using assms
  by (simp add: ocsCephNFSBlockPool_ensureDeleted_def newCephNFSBlockPoolInstance_meta split: sum.split)

lemma ocsCephNFSService_refetch:
  assumes "ocsCephNFSService_newNFSService (reconciler c sch) p = Inr d"
    and "Get c (keyOf d) s = (Inr found, s1)"
    and "Delete c found s1 = (None, s2)"
    and "Get c (keyOf d) s2 = (res, s3)"
  shows "ocsCephNFSService_ensureDeleted (reconciler c sch) p (s, log) =
           ((emptyResult,
             if (case res of Inl err \<Rightarrow> IsNotFound err | Inr live \<Rightarrow> False) then None
             else Some (Errorf (''uninstall: Waiting for NFS Service '' @ Name (ObjectMeta d) @ '' to be deleted''))),
            (s3, log @ [CallGet (keyOf d), CallDelete found, CallGet (keyOf d)]))"
  using assms
  by (simp add: ocsCephNFSService_ensureDeleted_def ocsCephNFSService_newNFSService_meta split: sum.split)

text \<open>
  C4, amended. In \<^verbatim>\<open>ensureDeleted\<close>, once the first fetch has found the live object and the
  delete request has been accepted, the live object is fetched again exactly once (the
  calls issued are the fetch, the delete request and one more fetch, and nothing after
  it). If the re-fetch reports not-found, \<^verbatim>\<open>ensureDeleted\<close> returns success with no
  error; if the object is still present (or the re-fetch fails otherwise), it returns
  the "waiting to be deleted" error at once: the function is total and neither blocks
  nor loops.
\<close>

theorem C4_single_refetch_after_delete:
  "(\<forall>d found s1 s2 res s3. newNFSService (reconciler cS sch) p = Inr d \<longrightarrow>
       Get cS (keyOf d) sS = (Inr found, s1) \<longrightarrow>
       Delete cS found s1 = (None, s2) \<longrightarrow>
       Get cS (keyOf d) s2 = (res, s3) \<longrightarrow>
       ocsNFSService_ensureDeleted (reconciler cS sch) p (sS, logS) =
         ((emptyResult,
           if (case res of Inl err \<Rightarrow> IsNotFound err | Inr live \<Rightarrow> False) then None
           else Some (Errorf (''uninstall: Waiting for NFS Service '' @ Name (ObjectMeta d) @ '' to be deleted''))),
          (s3, logS @ [CallGet (keyOf d), CallDelete found, CallGet (keyOf d)]))) \<and>
   (\<forall>d found s1 s2 res s3. newCephNetworkFilesystemInstance h (reconciler cN sch) p = Inr d \<longrightarrow>
       Get cN (keyOf d) sN = (Inr found, s1) \<longrightarrow>
       Delete cN found s1 = (None, s2) \<longrightarrow>
       Get cN (keyOf d) s2 = (res, s3) \<longrightarrow>
       ocsCephNetworkFilesystem_ensureDeleted h (reconciler cN sch) p (sN, logN) =
         ((emptyResult,
           if (case res of Inl err \<Rightarrow> IsNotFound err | Inr live \<Rightarrow> False) then None
           else Some (Errorf (''uninstall: Waiting for cephNetworkFilesystem '' @ Name (ObjectMeta d) @ '' to be deleted''))),
          (s3, logN @ [CallGet (keyOf d), CallDelete found, CallGet (keyOf d)]))) \<and>
   (\<forall>d found s1 s2 res s3. newCephNFSInstance h (reconciler cN sch) p = Inr d \<longrightarrow>
       Get cN (keyOf d) sN = (Inr found, s1) \<longrightarrow>
       Delete cN found s1 = (None, s2) \<longrightarrow>
       Get cN (keyOf d) s2 = (res, s3) \<longrightarrow>
       ocsCephNFS_ensureDeleted h (reconciler cN sch) p (sN, logN) =
         ((emptyResult,
           if (case res of Inl err \<Rightarrow> IsNotFound err | Inr live \<Rightarrow> False) then None
           else Some (Errorf (''uninstall: Waiting for CephNFS '' @ Name (ObjectMeta d) @ '' to be deleted''))),
          (s3, logN @ [CallGet (keyOf d), CallDelete found, CallGet (keyOf d)]))) \<and>
   (\<forall>d found s1 s2 res s3. newCephNFSBlockPoolInstance h (reconciler cB sch) p = Inr d \<longrightarrow>
       Get cB (keyOf d) sB = (Inr found, s1) \<longrightarrow>
       Delete cB found s1 = (None, s2) \<longrightarrow>
       Get cB (keyOf d) s2 = (res, s3) \<longrightarrow>
       ocsCephNFSBlockPool_ensureDeleted h (reconciler cB sch) p (sB, logB) =
         ((emptyResult,
           if (case res of Inl err \<Rightarrow> IsNotFound err | Inr live \<Rightarrow> False) then None
           else Some (Errorf (''uninstall: Waiting for CephBlockPool '' @ Name (ObjectMeta d) @ '' to be deleted''))),
          (s3, logB @ [CallGet (keyOf d), CallDelete found, CallGet (keyOf d)]))) \<and>
   (\<forall>d found s1 s2 res s3. ocsCephNFSService_newNFSService (reconciler cS sch) p = Inr d \<longrightarrow>
       Get cS (keyOf d) sS = (Inr found, s1) \<longrightarrow>
       Delete cS found s1 = (None, s2) \<longrightarrow>
       Get cS (keyOf d) s2 = (res, s3) \<longrightarrow>
       ocsCephNFSService_ensureDeleted (reconciler cS sch) p (sS, logS) =
         ((emptyResult,
           if (case res of Inl err \<Rightarrow> IsNotFound err | Inr live \<Rightarrow> False) then None
           else Some (Errorf (''uninstall: Waiting for NFS Service '' @ Name (ObjectMeta d) @ '' to be deleted''))),
          (s3, logS @ [CallGet (keyOf d), CallDelete found, CallGet (keyOf d)])))"
  by (intro conjI allI impI)
     (erule (3) ocsNFSService_refetch,
      erule (3) ocsCephNetworkFilesystem_refetch,
      erule (3) ocsCephNFS_refetch,
      erule (3) ocsCephNFSBlockPool_refetch,
      erule (3) ocsCephNFSService_refetch)

theorem C4_witness:
  "ocsNFSService_ensureDeleted (reconciler clusterClient (Some storageClusterGVK))
       ocsinit (clusterWith desiredNFSService, []) =
     ((emptyResult, None),
      (emptyCluster,
       [CallGet (NamespacedName ''openshift-storage'' ''ocsinit-cephnfs-service''),
        CallDelete desiredNFSService,
        CallGet (NamespacedName ''openshift-storage'' ''ocsinit-cephnfs-service'')])) \<and>
   ocsCephNetworkFilesystem_ensureDeleted exampleHelpers (reconciler clusterClient (Some storageClusterGVK))
       ocsinit (clusterWith desiredCephNetworkFilesystem, []) =
     ((emptyResult, None),
      (emptyCluster,
       [CallGet (NamespacedName ''openshift-storage'' ''ocsinit-cephnetworkfilesystem''),
        CallDelete desiredCephNetworkFilesystem,
        CallGet (NamespacedName ''openshift-storage'' ''ocsinit-cephnetworkfilesystem'')])) \<and>
   ocsCephNFS_ensureDeleted exampleHelpers (reconciler clusterClient (Some storageClusterGVK))
       ocsinit (clusterWith desiredCephNFS, []) =
     ((emptyResult, None),
      (emptyCluster,
       [CallGet (NamespacedName ''openshift-storage'' ''ocsinit-cephnfs''),
        CallDelete desiredCephNFS,
        CallGet (NamespacedName ''openshift-storage'' ''ocsinit-cephnfs'')])) \<and>
   ocsCephNFSBlockPool_ensureDeleted exampleHelpers (reconciler clusterClient (Some storageClusterGVK))
       ocsinit (clusterWith desiredCephBlockPool, []) =
     ((emptyResult, None),
      (emptyCluster,
       [CallGet (NamespacedName ''openshift-storage'' ''ocsinit-cephnfs-builtin-pool''),
        CallDelete desiredCephBlockPool,
        CallGet (NamespacedName ''openshift-storage'' ''ocsinit-cephnfs-builtin-pool'')])) \<and>
   ocsCephNFSService_ensureDeleted (reconciler clusterClient (Some storageClusterGVK))
       ocsinit (clusterWith desiredCephNFSService, []) =
     ((emptyResult, None),
      (emptyCluster,
       [CallGet (NamespacedName ''openshift-storage'' ''ocsinit-cephnfs-service''),
        CallDelete desiredCephNFSService,
        CallGet (NamespacedName ''openshift-storage'' ''ocsinit-cephnfs-service'')])) \<and>
   ocsNFSService_ensureDeleted (reconciler clusterClient (Some storageClusterGVK))
       ocsinit (clusterWith (withFinalizer desiredNFSService), []) =
     ((emptyResult, Some (Errorf ''uninstall: Waiting for NFS Service ocsinit-cephnfs-service to be deleted'')),
      (clusterWith (markedForDeletion desiredNFSService),
       [CallGet (NamespacedName ''openshift-storage'' ''ocsinit-cephnfs-service''),
        CallDelete (withFinalizer desiredNFSService),
        CallGet (NamespacedName ''openshift-storage'' ''ocsinit-cephnfs-service'')])) \<and>
   ocsCephNetworkFilesystem_ensureDeleted exampleHelpers (reconciler clusterClient (Some storageClusterGVK))
       ocsinit (clusterWith (withFinalizer desiredCephNetworkFilesystem), []) =
     ((emptyResult, Some (Errorf ''uninstall: Waiting for cephNetworkFilesystem ocsinit-cephnetworkfilesystem to be deleted'')),
      (clusterWith (markedForDeletion desiredCephNetworkFilesystem),
       [CallGet (NamespacedName ''openshift-storage'' ''ocsinit-cephnetworkfilesystem''),
        CallDelete (withFinalizer desiredCephNetworkFilesystem),
        CallGet (NamespacedName ''openshift-storage'' ''ocsinit-cephnetworkfilesystem'')])) \<and>
   ocsCephNFS_ensureDeleted exampleHelpers (reconciler clusterClient (Some storageClusterGVK))
       ocsinit (clusterWith (withFinalizer desiredCephNFS), []) =
     ((emptyResult, Some (Errorf ''uninstall: Waiting for CephNFS ocsinit-cephnfs to be deleted'')),
      (clusterWith (markedForDeletion desiredCephNFS),
       [CallGet (NamespacedName ''openshift-storage'' ''ocsinit-cephnfs''),
        CallDelete (withFinalizer desiredCephNFS),
        CallGet (NamespacedName ''openshift-storage'' ''ocsinit-cephnfs'')])) \<and>
   ocsCephNFSBlockPool_ensureDeleted exampleHelpers (reconciler clusterClient (Some storageClusterGVK))
       ocsinit (clusterWith (withFinalizer desiredCephBlockPool), []) =
     ((emptyResult, Some (Errorf ''uninstall: Waiting for CephBlockPool ocsinit-cephnfs-builtin-pool to be deleted'')),
      (clusterWith (markedForDeletion desiredCephBlockPool),
       [CallGet (NamespacedName ''openshift-storage'' ''ocsinit-cephnfs-builtin-pool''),
        CallDelete (withFinalizer desiredCephBlockPool),
        CallGet (NamespacedName ''openshift-storage'' ''ocsinit-cephnfs-builtin-pool'')])) \<and>
   ocsCephNFSService_ensureDeleted (reconciler clusterClient (Some storageClusterGVK))
       ocsinit (clusterWith (withFinalizer desiredCephNFSService), []) =
     ((emptyResult, Some (Errorf ''uninstall: Waiting for NFS Service ocsinit-cephnfs-service to be deleted'')),
      (clusterWith (markedForDeletion desiredCephNFSService),
       [CallGet (NamespacedName ''openshift-storage'' ''ocsinit-cephnfs-service''),
        CallDelete (withFinalizer desiredCephNFSService),
        CallGet (NamespacedName ''openshift-storage'' ''ocsinit-cephnfs-service'')]))"
proof -
  note t = C4_single_refetch_after_delete [
      where h = exampleHelpers and sch = "Some storageClusterGVK" and cS = clusterClient
        and cN = clusterClient and cB = clusterClient and p = ocsinit]
  have g1: "ocsNFSService_ensureDeleted (reconciler clusterClient (Some storageClusterGVK))
       ocsinit (clusterWith desiredNFSService, []) =
     ((emptyResult, None),
      (emptyCluster,
       [CallGet (NamespacedName ''openshift-storage'' ''ocsinit-cephnfs-service''),
        CallDelete desiredNFSService,
        CallGet (NamespacedName ''openshift-storage'' ''ocsinit-cephnfs-service'')]))"
    using t [where sS = "clusterWith desiredNFSService" and logS = "[]",
        THEN conjunct1, rule_format,
        OF newNFSService_ocsinit Get_clusterWith
          Delete_plain [OF desiredNFSService_fields(4)] Get_emptyCluster]
    by (simp add: IsNotFound_notFound desiredNFSService_fields)
  have w1: "ocsNFSService_ensureDeleted (reconciler clusterClient (Some storageClusterGVK))
       ocsinit (clusterWith (withFinalizer desiredNFSService), []) =
     ((emptyResult, Some (Errorf ''uninstall: Waiting for NFS Service ocsinit-cephnfs-service to be deleted'')),
      (clusterWith (markedForDeletion desiredNFSService),
       [CallGet (NamespacedName ''openshift-storage'' ''ocsinit-cephnfs-service''),
        CallDelete (withFinalizer desiredNFSService),
        CallGet (NamespacedName ''openshift-storage'' ''ocsinit-cephnfs-service'')]))"
    using t [where sS = "clusterWith (withFinalizer desiredNFSService)" and logS = "[]",
        THEN conjunct1, rule_format,
        OF newNFSService_ocsinit Get_withFinalizer
          Delete_withFinalizer [OF desiredNFSService_fields(3)] Get_marked]
    by (simp add: desiredNFSService_fields)
  have g2: "ocsCephNetworkFilesystem_ensureDeleted exampleHelpers (reconciler clusterClient (Some storageClusterGVK))
       ocsinit (clusterWith desiredCephNetworkFilesystem, []) =
     ((emptyResult, None),
      (emptyCluster,
       [CallGet (NamespacedName ''openshift-storage'' ''ocsinit-cephnetworkfilesystem''),
        CallDelete desiredCephNetworkFilesystem,
        CallGet (NamespacedName ''openshift-storage'' ''ocsinit-cephnetworkfilesystem'')]))"
    using t [where sN = "clusterWith desiredCephNetworkFilesystem" and logN = "[]",
        THEN conjunct2, THEN conjunct1, rule_format,
        OF newCephNetworkFilesystemInstance_ocsinit Get_clusterWith
          Delete_plain [OF desiredCephNetworkFilesystem_fields(4)] Get_emptyCluster]
    by (simp add: IsNotFound_notFound desiredCephNetworkFilesystem_fields)
  have w2: "ocsCephNetworkFilesystem_ensureDeleted exampleHelpers (reconciler clusterClient (Some storageClusterGVK))
       ocsinit (clusterWith (withFinalizer desiredCephNetworkFilesystem), []) =
     ((emptyResult, Some (Errorf ''uninstall: Waiting for cephNetworkFilesystem ocsinit-cephnetworkfilesystem to be deleted'')),
      (clusterWith (markedForDeletion desiredCephNetworkFilesystem),
       [CallGet (NamespacedName ''openshift-storage'' ''ocsinit-cephnetworkfilesystem''),
        CallDelete (withFinalizer desiredCephNetworkFilesystem),
        CallGet (NamespacedName ''openshift-storage'' ''ocsinit-cephnetworkfilesystem'')]))"
    using t [where sN = "clusterWith (withFinalizer desiredCephNetworkFilesystem)" and logN = "[]",
        THEN conjunct2, THEN conjunct1, rule_format,
        OF newCephNetworkFilesystemInstance_ocsinit Get_withFinalizer
          Delete_withFinalizer [OF desiredCephNetworkFilesystem_fields(3)] Get_marked]
    by (simp add: desiredCephNetworkFilesystem_fields)
  have g3: "ocsCephNFS_ensureDeleted exampleHelpers (reconciler clusterClient (Some storageClusterGVK))
       ocsinit (clusterWith desiredCephNFS, []) =
     ((emptyResult, None),
      (emptyCluster,
       [CallGet (NamespacedName ''openshift-storage'' ''ocsinit-cephnfs''),
        CallDelete desiredCephNFS,
        CallGet (NamespacedName ''openshift-storage'' ''ocsinit-cephnfs'')]))"
    using t [where sN = "clusterWith desiredCephNFS" and logN = "[]",
        THEN conjunct2, THEN conjunct2, THEN conjunct1, rule_format,
        OF newCephNFSInstance_ocsinit Get_clusterWith
          Delete_plain [OF desiredCephNFS_fields(4)] Get_emptyCluster]
    by (simp add: IsNotFound_notFound desiredCephNFS_fields)
  have w3: "ocsCephNFS_ensureDeleted exampleHelpers (reconciler clusterClient (Some storageClusterGVK))
       ocsinit (clusterWith (withFinalizer desiredCephNFS), []) =
     ((emptyResult, Some (Errorf ''uninstall: Waiting for CephNFS ocsinit-cephnfs to be deleted'')),
      (clusterWith (markedForDeletion desiredCephNFS),
       [CallGet (NamespacedName ''openshift-storage'' ''ocsinit-cephnfs''),
        CallDelete (withFinalizer desiredCephNFS),
        CallGet (NamespacedName ''openshift-storage'' ''ocsinit-cephnfs'')]))"
    using t [where sN = "clusterWith (withFinalizer desiredCephNFS)" and logN = "[]",
        THEN conjunct2, THEN conjunct2, THEN conjunct1, rule_format,
        OF newCephNFSInstance_ocsinit Get_withFinalizer
          Delete_withFinalizer [OF desiredCephNFS_fields(3)] Get_marked]
    by (simp add: desiredCephNFS_fields)
  have g4: "ocsCephNFSBlockPool_ensureDeleted exampleHelpers (reconciler clusterClient (Some storageClusterGVK))
       ocsinit (clusterWith desiredCephBlockPool, []) =
     ((emptyResult, None),
      (emptyCluster,
       [CallGet (NamespacedName ''openshift-storage'' ''ocsinit-cephnfs-builtin-pool''),
        CallDelete desiredCephBlockPool,
        CallGet (NamespacedName ''openshift-storage'' ''ocsinit-cephnfs-builtin-pool'')]))"
    using t [where sB = "clusterWith desiredCephBlockPool" and logB = "[]",
        THEN conjunct2, THEN conjunct2, THEN conjunct2, THEN conjunct1, rule_format,
        OF newCephNFSBlockPoolInstance_ocsinit Get_clusterWith
          Delete_plain [OF desiredCephBlockPool_fields(4)] Get_emptyCluster]
    by (simp add: IsNotFound_notFound desiredCephBlockPool_fields)
  have w4: "ocsCephNFSBlockPool_ensureDeleted exampleHelpers (reconciler clusterClient (Some storageClusterGVK))
       ocsinit (clusterWith (withFinalizer desiredCephBlockPool), []) =
     ((emptyResult, Some (Errorf ''uninstall: Waiting for CephBlockPool ocsinit-cephnfs-builtin-pool to be deleted'')),
      (clusterWith (markedForDeletion desiredCephBlockPool),
       [CallGet (NamespacedName ''openshift-storage'' ''ocsinit-cephnfs-builtin-pool''),
        CallDelete (withFinalizer desiredCephBlockPool),
        CallGet (NamespacedName ''openshift-storage'' ''ocsinit-cephnfs-builtin-pool'')]))"
    using t [where sB = "clusterWith (withFinalizer desiredCephBlockPool)" and logB = "[]",
        THEN conjunct2, THEN conjunct2, THEN conjunct2, THEN conjunct1, rule_format,
        OF newCephNFSBlockPoolInstance_ocsinit Get_withFinalizer
          Delete_withFinalizer [OF desiredCephBlockPool_fields(3)] Get_marked]
    by (simp add: desiredCephBlockPool_fields)
  have g5: "ocsCephNFSService_ensureDeleted (reconciler clusterClient (Some storageClusterGVK))
       ocsinit (clusterWith desiredCephNFSService, []) =
     ((emptyResult, None),
      (emptyCluster,
       [CallGet (NamespacedName ''openshift-storage'' ''ocsinit-cephnfs-service''),
        CallDelete desiredCephNFSService,
        CallGet (NamespacedName ''openshift-storage'' ''ocsinit-cephnfs-service'')]))"
    using t [where sS = "clusterWith desiredCephNFSService" and logS = "[]",
        THEN conjunct2, THEN conjunct2, THEN conjunct2, THEN conjunct2, rule_format,
        OF ocsCephNFSService_newNFSService_ocsinit Get_clusterWith
          Delete_plain [OF desiredCephNFSService_fields(4)] Get_emptyCluster]
    by (simp add: IsNotFound_notFound desiredCephNFSService_fields)
  have w5: "ocsCephNFSService_ensureDeleted (reconciler clusterClient (Some storageClusterGVK))
       ocsinit (clusterWith (withFinalizer desiredCephNFSService), []) =
     ((emptyResult, Some (Errorf ''uninstall: Waiting for NFS Service ocsinit-cephnfs-service to be deleted'')),
      (clusterWith (markedForDeletion desiredCephNFSService),
       [CallGet (NamespacedName ''openshift-storage'' ''ocsinit-cephnfs-service''),
        CallDelete (withFinalizer desiredCephNFSService),
        CallGet (NamespacedName ''openshift-storage'' ''ocsinit-cephnfs-service'')]))"
    using t [where sS = "clusterWith (withFinalizer desiredCephNFSService)" and logS = "[]",
        THEN conjunct2, THEN conjunct2, THEN conjunct2, THEN conjunct2, rule_format,
        OF ocsCephNFSService_newNFSService_ocsinit Get_withFinalizer
          Delete_withFinalizer [OF desiredCephNFSService_fields(3)] Get_marked]
    by (simp add: desiredCephNFSService_fields)
  show ?thesis by (intro conjI g1 g2 g3 g4 g5 w1 w2 w3 w4 w5)
qed

text \<open>A delete request the substrate refuses: \<^verbatim>\<open>ensureDeleted\<close> returns the "Failed to
  delete" error at once, and the live object is not fetched again.\<close>

lemma ocsNFSService_delete_refused:
  assumes "newNFSService (reconciler c sch) p = Inr d"
    and "Get c (keyOf d) s = (Inr found, s1)"
    and "Delete c found s1 = (Some err, s2)"
  shows "ocsNFSService_ensureDeleted (reconciler c sch) p (s, log) =
           ((emptyResult,
             Some (Errorf (''uninstall: Failed to delete NFS Service '' @ Name (ObjectMeta found) @ '': '' @
                           Error err))),
            (s2, log @ [CallGet (keyOf d), CallDelete found]))"
  using assms
  by (simp add: ocsNFSService_ensureDeleted_def newNFSService_meta)

lemma ocsCephNetworkFilesystem_delete_refused:
  assumes "newCephNetworkFilesystemInstance h (reconciler c sch) p = Inr d"
    and "Get c (keyOf d) s = (Inr found, s1)"
    and "Delete c found s1 = (Some err, s2)"
  shows "ocsCephNetworkFilesystem_ensureDeleted h (reconciler c sch) p (s, log) =
           ((emptyResult,
             Some (Errorf (''uninstall: Failed to delete cephNetworkFilesystem '' @ Name (ObjectMeta found) @ '': '' @
                           Error err))),
            (s2, log @ [CallGet (keyOf d), CallDelete found]))"
  using assms
  by (simp add: ocsCephNetworkFilesystem_ensureDeleted_def newCephNetworkFilesystemInstance_meta)

lemma ocsCephNFS_delete_refused:
  assumes "newCephNFSInstance h (reconciler c sch) p = Inr d"
    and "Get c (keyOf d) s = (Inr found, s1)"
    and "Delete c found s1 = (Some err, s2)"
  shows "ocsCephNFS_ensureDeleted h (reconciler c sch) p (s, log) =
           ((emptyResult,
             Some (Errorf (''uninstall: Failed to delete CephNFS '' @ Name (ObjectMeta found) @ '': '' @
                           Error err))),
            (s2, log @ [CallGet (keyOf d), CallDelete found]))"
  using assms
  by (simp add: ocsCephNFS_ensureDeleted_def newCephNFSInstance_meta)

lemma ocsCephNFSBlockPool_delete_refused:
  assumes "newCephNFSBlockPoolInstance h (reconciler c sch) p = Inr d"
    and "Get c (keyOf d) s = (Inr found, s1)"
    and "Delete c found s1 = (Some err, s2)"
  shows "ocsCephNFSBlockPool_ensureDeleted h (reconciler c sch) p (s, log) =
           ((emptyResult,
             Some (Errorf (''uninstall: Failed to delete CephBlockPool '' @ Name (ObjectMeta found) @ '': '' @
                           Error err))),
            (s2, log @ [CallGet (keyOf d), CallDelete found]))"
  using assms
  by (simp add: ocsCephNFSBlockPool_ensureDeleted_def newCephNFSBlockPoolInstance_meta)

lemma ocsCephNFSService_delete_refused:
  assumes "ocsCephNFSService_newNFSService (reconciler c sch) p = Inr d"
    and "Get c (keyOf d) s = (Inr found, s1)"
    and "Delete c found s1 = (Some err, s2)"
  shows "ocsCephNFSService_ensureDeleted (reconciler c sch) p (s, log) =
           ((emptyResult,
             Some (Errorf (''uninstall: Failed to delete NFS Service '' @ Name (ObjectMeta found) @ '': '' @
                           Error err))),
            (s2, log @ [CallGet (keyOf d), CallDelete found]))"
  using assms
  by (simp add: ocsCephNFSService_ensureDeleted_def ocsCephNFSService_newNFSService_meta)

lemma Get_deleteRefusingCluster:
  "Get clusterClient (keyOf obj) (deleteRefusingCluster obj) =
     (Inr obj, (deleteRefusingCluster obj)\<lparr>faults := [Some serverTimeout]\<rparr>)"
  by (simp add: clusterClient_simps clusterGet_def deleteRefusingCluster_def injected_def
      consume_def)

lemma Delete_deleteRefusingCluster:
  "Delete clusterClient obj ((deleteRefusingCluster obj)\<lparr>faults := [Some serverTimeout]\<rparr>) =
     (Some serverTimeout, clusterWith obj)"
  by (simp add: clusterClient_simps clusterDelete_def deleteRefusingCluster_def injected_def
      consume_def clusterWith_def)

text \<open>
  C4 as first stated has the live object re-fetched exactly once after the delete
  request, whatever the request's fate. That fails when the substrate refuses the
  delete request: for the parent \<open>ocsinit\<close> and a live object whose delete request times
  out, each of the five reconcilers issues the fetch and the delete request and
  returns the "Failed to delete" error; no re-fetch follows.
\<close>

theorem C4_counterexample:
  "ocsNFSService_ensureDeleted (reconciler clusterClient (Some storageClusterGVK))
       ocsinit (deleteRefusingCluster desiredNFSService, []) =
     ((emptyResult,
       Some (Errorf ''uninstall: Failed to delete NFS Service ocsinit-cephnfs-service: etcdserver: request timed out'')),
      (clusterWith desiredNFSService,
       [CallGet (NamespacedName ''openshift-storage'' ''ocsinit-cephnfs-service''),
        CallDelete desiredNFSService])) \<and>
   ocsCephNetworkFilesystem_ensureDeleted exampleHelpers (reconciler clusterClient (Some storageClusterGVK))
       ocsinit (deleteRefusingCluster desiredCephNetworkFilesystem, []) =
     ((emptyResult,
       Some (Errorf ''uninstall: Failed to delete cephNetworkFilesystem ocsinit-cephnetworkfilesystem: etcdserver: request timed out'')),
      (clusterWith desiredCephNetworkFilesystem,
       [CallGet (NamespacedName ''openshift-storage'' ''ocsinit-cephnetworkfilesystem''),
        CallDelete desiredCephNetworkFilesystem])) \<and>
   ocsCephNFS_ensureDeleted exampleHelpers (reconciler clusterClient (Some storageClusterGVK))
       ocsinit (deleteRefusingCluster desiredCephNFS, []) =
     ((emptyResult,
       Some (Errorf ''uninstall: Failed to delete CephNFS ocsinit-cephnfs: etcdserver: request timed out'')),
      (clusterWith desiredCephNFS,
       [CallGet (NamespacedName ''openshift-storage'' ''ocsinit-cephnfs''),
        CallDelete desiredCephNFS])) \<and>
   ocsCephNFSBlockPool_ensureDeleted exampleHelpers (reconciler clusterClient (Some storageClusterGVK))
       ocsinit (deleteRefusingCluster desiredCephBlockPool, []) =
     ((emptyResult,
       Some (Errorf ''uninstall: Failed to delete CephBlockPool ocsinit-cephnfs-builtin-pool: etcdserver: request timed out'')),
      (clusterWith desiredCephBlockPool,
       [CallGet (NamespacedName ''openshift-storage'' ''ocsinit-cephnfs-builtin-pool''),
        CallDelete desiredCephBlockPool])) \<and>
   ocsCephNFSService_ensureDeleted (reconciler clusterClient (Some storageClusterGVK))
       ocsinit (deleteRefusingCluster desiredCephNFSService, []) =
     ((emptyResult,
       Some (Errorf ''uninstall: Failed to delete NFS Service ocsinit-cephnfs-service: etcdserver: request timed out'')),
      (clusterWith desiredCephNFSService,
       [CallGet (NamespacedName ''openshift-storage'' ''ocsinit-cephnfs-service''),
        CallDelete desiredCephNFSService]))"
proof -
  have k1: "ocsNFSService_ensureDeleted (reconciler clusterClient (Some storageClusterGVK))
       ocsinit (deleteRefusingCluster desiredNFSService, []) =
     ((emptyResult,
       Some (Errorf ''uninstall: Failed to delete NFS Service ocsinit-cephnfs-service: etcdserver: request timed out'')),
      (clusterWith desiredNFSService,
       [CallGet (NamespacedName ''openshift-storage'' ''ocsinit-cephnfs-service''),
        CallDelete desiredNFSService]))"
    using ocsNFSService_delete_refused [OF newNFSService_ocsinit Get_deleteRefusingCluster
        Delete_deleteRefusingCluster, of "[]"]
    by (simp add: desiredNFSService_fields serverTimeout_def)
  have k2: "ocsCephNetworkFilesystem_ensureDeleted exampleHelpers (reconciler clusterClient (Some storageClusterGVK))
       ocsinit (deleteRefusingCluster desiredCephNetworkFilesystem, []) =
     ((emptyResult,
       Some (Errorf ''uninstall: Failed to delete cephNetworkFilesystem ocsinit-cephnetworkfilesystem: etcdserver: request timed out'')),
      (clusterWith desiredCephNetworkFilesystem,
       [CallGet (NamespacedName ''openshift-storage'' ''ocsinit-cephnetworkfilesystem''),
        CallDelete desiredCephNetworkFilesystem]))"
    using ocsCephNetworkFilesystem_delete_refused [OF newCephNetworkFilesystemInstance_ocsinit Get_deleteRefusingCluster
        Delete_deleteRefusingCluster, of "[]"]
    by (simp add: desiredCephNetworkFilesystem_fields serverTimeout_def)
  have k3: "ocsCephNFS_ensureDeleted exampleHelpers (reconciler clusterClient (Some storageClusterGVK))
       ocsinit (deleteRefusingCluster desiredCephNFS, []) =
     ((emptyResult,
       Some (Errorf ''uninstall: Failed to delete CephNFS ocsinit-cephnfs: etcdserver: request timed out'')),
      (clusterWith desiredCephNFS,
       [CallGet (NamespacedName ''openshift-storage'' ''ocsinit-cephnfs''),
        CallDelete desiredCephNFS]))"
    using ocsCephNFS_delete_refused [OF newCephNFSInstance_ocsinit Get_deleteRefusingCluster
        Delete_deleteRefusingCluster, of "[]"]
    by (simp add: desiredCephNFS_fields serverTimeout_def)
  have k4: "ocsCephNFSBlockPool_ensureDeleted exampleHelpers (reconciler clusterClient (Some storageClusterGVK))
       ocsinit (deleteRefusingCluster desiredCephBlockPool, []) =
     ((emptyResult,
       Some (Errorf ''uninstall: Failed to delete CephBlockPool ocsinit-cephnfs-builtin-pool: etcdserver: request timed out'')),
      (clusterWith desiredCephBlockPool,
       [CallGet (NamespacedName ''openshift-storage'' ''ocsinit-cephnfs-builtin-pool''),
        CallDelete desiredCephBlockPool]))"
    using ocsCephNFSBlockPool_delete_refused [OF newCephNFSBlockPoolInstance_ocsinit Get_deleteRefusingCluster
        Delete_deleteRefusingCluster, of "[]"]
    by (simp add: desiredCephBlockPool_fields serverTimeout_def)
  have k5: "ocsCephNFSService_ensureDeleted (reconciler clusterClient (Some storageClusterGVK))
       ocsinit (deleteRefusingCluster desiredCephNFSService, []) =
     ((emptyResult,
       Some (Errorf ''uninstall: Failed to delete NFS Service ocsinit-cephnfs-service: etcdserver: request timed out'')),
      (clusterWith desiredCephNFSService,
       [CallGet (NamespacedName ''openshift-storage'' ''ocsinit-cephnfs-service''),
        CallDelete desiredCephNFSService]))"
    using ocsCephNFSService_delete_refused [OF ocsCephNFSService_newNFSService_ocsinit Get_deleteRefusingCluster
        Delete_deleteRefusingCluster, of "[]"]
    by (simp add: desiredCephNFSService_fields serverTimeout_def)
  show ?thesis by (intro conjI k1 k2 k3 k4 k5)
qed


section \<open>A failed fetch in ensureCreated\<close>

text \<open>Whatever the client: when the fetch fails with an error other than not-found,
  neither case of the \<^verbatim>\<open>switch\<close> applies and \<^verbatim>\<open>ensureCreated\<close> returns \<^verbatim>\<open>nil\<close> after
  that one call.\<close>

lemma ocsNFSService_fetch_error_dropped:
  assumes "\<not> nfsDisabled p"
    and "newNFSService (reconciler c sch) p = Inr d"
    and "Get c (keyOf d) s = (Inl err, s1)"
    and "\<not> IsNotFound err"
  shows "ocsNFSService_ensureCreated (reconciler c sch) p (s, log) =
           ((emptyResult, None), (s1, log @ [CallGet (keyOf d)]))"
  using assms by (simp add: ocsNFSService_ensureCreated_def newNFSService_meta)

lemma ocsNFSService_fetch_error_surfaced_on_delete:
  assumes "newNFSService (reconciler c sch) p = Inr d"
    and "Get c (keyOf d) s = (Inl err, s1)"
    and "\<not> IsNotFound err"
  shows "ocsNFSService_ensureDeleted (reconciler c sch) p (s, log) =
           ((emptyResult,
             Some (Errorf (''uninstall: Unable to retrieve NFS Service '' @ Name (ObjectMeta d) @ '': '' @ Error err))),
            (s1, log @ [CallGet (keyOf d)]))"
  using assms by (simp add: ocsNFSService_ensureDeleted_def newNFSService_meta)

lemma ocsCephNetworkFilesystem_fetch_error_dropped:
  assumes "\<not> nfsDisabled p"
    and "newCephNetworkFilesystemInstance h (reconciler c sch) p = Inr d"
    and "Get c (keyOf d) s = (Inl err, s1)"
    and "\<not> IsNotFound err"
  shows "ocsCephNetworkFilesystem_ensureCreated h (reconciler c sch) p (s, log) =
           ((emptyResult, None), (s1, log @ [CallGet (keyOf d)]))"
  using assms by (simp add: ocsCephNetworkFilesystem_ensureCreated_def newCephNetworkFilesystemInstance_meta)

lemma ocsCephNetworkFilesystem_fetch_error_surfaced_on_delete:
  assumes "newCephNetworkFilesystemInstance h (reconciler c sch) p = Inr d"
    and "Get c (keyOf d) s = (Inl err, s1)"
    and "\<not> IsNotFound err"
  shows "ocsCephNetworkFilesystem_ensureDeleted h (reconciler c sch) p (s, log) =
           ((emptyResult,
             Some (Errorf (''uninstall: Unable to retrieve cephNetworkFilesystem '' @ Name (ObjectMeta d) @ '': '' @ Error err))),
            (s1, log @ [CallGet (keyOf d)]))"
  using assms by (simp add: ocsCephNetworkFilesystem_ensureDeleted_def newCephNetworkFilesystemInstance_meta)

lemma ocsCephNFS_fetch_error_dropped:
  assumes "\<not> nfsDisabled p"
    and "newCephNFSInstance h (reconciler c sch) p = Inr d"
    and "Get c (keyOf d) s = (Inl err, s1)"
    and "\<not> IsNotFound err"
  shows "ocsCephNFS_ensureCreated h (reconciler c sch) p (s, log) =
           ((emptyResult, None), (s1, log @ [CallGet (keyOf d)]))"
  using assms by (simp add: ocsCephNFS_ensureCreated_def newCephNFSInstance_meta)

lemma ocsCephNFS_fetch_error_surfaced_on_delete:
  assumes "newCephNFSInstance h (reconciler c sch) p = Inr d"
    and "Get c (keyOf d) s = (Inl err, s1)"
    and "\<not> IsNotFound err"
  shows "ocsCephNFS_ensureDeleted h (reconciler c sch) p (s, log) =
           ((emptyResult,
             Some (Errorf (''uninstall: Unable to retrieve CephNFS '' @ Name (ObjectMeta d) @ '': '' @ Error err))),
            (s1, log @ [CallGet (keyOf d)]))"
  using assms by (simp add: ocsCephNFS_ensureDeleted_def newCephNFSInstance_meta)

lemma ocsCephNFSBlockPool_fetch_error_dropped:
  assumes "\<not> nfsDisabled p"
    and "newCephNFSBlockPoolInstance h (reconciler c sch) p = Inr d"
    and "Get c (keyOf d) s = (Inl err, s1)"
    and "\<not> IsNotFound err"
  shows "ocsCephNFSBlockPool_ensureCreated h (reconciler c sch) p (s, log) =
           ((emptyResult, None), (s1, log @ [CallGet (keyOf d)]))"
  using assms by (simp add: ocsCephNFSBlockPool_ensureCreated_def newCephNFSBlockPoolInstance_meta)

lemma ocsCephNFSBlockPool_fetch_error_surfaced_on_delete:
  assumes "newCephNFSBlockPoolInstance h (reconciler c sch) p = Inr d"
    and "Get c (keyOf d) s = (Inl err, s1)"
    and "\<not> IsNotFound err"
  shows "ocsCephNFSBlockPool_ensureDeleted h (reconciler c sch) p (s, log) =
           ((emptyResult,
             Some (Errorf (''uninstall: unable to retrieve CephBlockPool '' @ Name (ObjectMeta d) @ '': '' @ Error err))),
            (s1, log @ [CallGet (keyOf d)]))"
  using assms by (simp add: ocsCephNFSBlockPool_ensureDeleted_def newCephNFSBlockPoolInstance_meta)

lemma ocsCephNFSService_fetch_error_dropped:
  assumes "\<not> nfsDisabled p"
    and "ocsCephNFSService_newNFSService (reconciler c sch) p = Inr d"
    and "Get c (keyOf d) s = (Inl err, s1)"
    and "\<not> IsNotFound err"
  shows "ocsCephNFSService_ensureCreated (reconciler c sch) p (s, log) =
           ((emptyResult, None), (s1, log @ [CallGet (keyOf d)]))"
  using assms by (simp add: ocsCephNFSService_ensureCreated_def ocsCephNFSService_newNFSService_meta)

lemma ocsCephNFSService_fetch_error_surfaced_on_delete:
  assumes "ocsCephNFSService_newNFSService (reconciler c sch) p = Inr d"
    and "Get c (keyOf d) s = (Inl err, s1)"
    and "\<not> IsNotFound err"
  shows "ocsCephNFSService_ensureDeleted (reconciler c sch) p (s, log) =
           ((emptyResult,
             Some (Errorf (''uninstall: Unable to retrieve NFS Service '' @ Name (ObjectMeta d) @ '': '' @ Error err))),
            (s1, log @ [CallGet (keyOf d)]))"
  using assms by (simp add: ocsCephNFSService_ensureDeleted_def ocsCephNFSService_newNFSService_meta)

text \<open>
  C1 asks that every substrate I/O error met during \<^verbatim>\<open>ensureCreated\<close> is returned to
  the caller, in particular a failed fetch of the live object. The code does not do
  so: for the parent \<open>ocsinit\<close> (feature enabled) on a substrate whose next call times
  out, each of the five reconcilers issues the fetch, receives the timeout, and returns
  success with no error.
\<close>

theorem C1_fetch_error_not_returned:
  "ocsNFSService_ensureCreated (reconciler clusterClient (Some storageClusterGVK))
       ocsinit (failingCluster, []) =
     ((emptyResult, None), (emptyCluster, [CallGet (NamespacedName ''openshift-storage'' ''ocsinit-cephnfs-service'')])) \<and>
   ocsCephNetworkFilesystem_ensureCreated exampleHelpers (reconciler clusterClient (Some storageClusterGVK))
       ocsinit (failingCluster, []) =
     ((emptyResult, None), (emptyCluster, [CallGet (NamespacedName ''openshift-storage'' ''ocsinit-cephnetworkfilesystem'')])) \<and>
   ocsCephNFS_ensureCreated exampleHelpers (reconciler clusterClient (Some storageClusterGVK))
       ocsinit (failingCluster, []) =
     ((emptyResult, None), (emptyCluster, [CallGet (NamespacedName ''openshift-storage'' ''ocsinit-cephnfs'')])) \<and>
   ocsCephNFSBlockPool_ensureCreated exampleHelpers (reconciler clusterClient (Some storageClusterGVK))
       ocsinit (failingCluster, []) =
     ((emptyResult, None), (emptyCluster, [CallGet (NamespacedName ''openshift-storage'' ''ocsinit-cephnfs-builtin-pool'')])) \<and>
   ocsCephNFSService_ensureCreated (reconciler clusterClient (Some storageClusterGVK))
       ocsinit (failingCluster, []) =
     ((emptyResult, None), (emptyCluster, [CallGet (NamespacedName ''openshift-storage'' ''ocsinit-cephnfs-service'')]))"
proof -
  have k1: "ocsNFSService_ensureCreated (reconciler clusterClient (Some storageClusterGVK))
       ocsinit (failingCluster, []) =
     ((emptyResult, None), (emptyCluster, [CallGet (NamespacedName ''openshift-storage'' ''ocsinit-cephnfs-service'')]))"
    using ocsNFSService_fetch_error_dropped [OF ocsinit_enabled newNFSService_ocsinit
        Get_failingCluster failingCluster_fields(3), of "[]"]
    by (simp add: desiredNFSService_fields)
  have k2: "ocsCephNetworkFilesystem_ensureCreated exampleHelpers (reconciler clusterClient (Some storageClusterGVK))
       ocsinit (failingCluster, []) =
     ((emptyResult, None), (emptyCluster, [CallGet (NamespacedName ''openshift-storage'' ''ocsinit-cephnetworkfilesystem'')]))"
    using ocsCephNetworkFilesystem_fetch_error_dropped [OF ocsinit_enabled newCephNetworkFilesystemInstance_ocsinit
        Get_failingCluster failingCluster_fields(3), of "[]"]
    by (simp add: desiredCephNetworkFilesystem_fields)
  have k3: "ocsCephNFS_ensureCreated exampleHelpers (reconciler clusterClient (Some storageClusterGVK))
       ocsinit (failingCluster, []) =
     ((emptyResult, None), (emptyCluster, [CallGet (NamespacedName ''openshift-storage'' ''ocsinit-cephnfs'')]))"
    using ocsCephNFS_fetch_error_dropped [OF ocsinit_enabled newCephNFSInstance_ocsinit
        Get_failingCluster failingCluster_fields(3), of "[]"]
    by (simp add: desiredCephNFS_fields)
  have k4: "ocsCephNFSBlockPool_ensureCreated exampleHelpers (reconciler clusterClient (Some storageClusterGVK))
       ocsinit (failingCluster, []) =
     ((emptyResult, None), (emptyCluster, [CallGet (NamespacedName ''openshift-storage'' ''ocsinit-cephnfs-builtin-pool'')]))"
    using ocsCephNFSBlockPool_fetch_error_dropped [OF ocsinit_enabled newCephNFSBlockPoolInstance_ocsinit
        Get_failingCluster failingCluster_fields(3), of "[]"]
    by (simp add: desiredCephBlockPool_fields)
  have k5: "ocsCephNFSService_ensureCreated (reconciler clusterClient (Some storageClusterGVK))
       ocsinit (failingCluster, []) =
     ((emptyResult, None), (emptyCluster, [CallGet (NamespacedName ''openshift-storage'' ''ocsinit-cephnfs-service'')]))"
    using ocsCephNFSService_fetch_error_dropped [OF ocsinit_enabled ocsCephNFSService_newNFSService_ocsinit
        Get_failingCluster failingCluster_fields(3), of "[]"]
    by (simp add: desiredCephNFSService_fields)
  show ?thesis by (intro conjI k1 k2 k3 k4 k5)
qed

text \<open>On the same substrate \<^verbatim>\<open>ensureDeleted\<close> does surface the failed fetch.\<close>

lemma ocsNFSService_ensureDeleted_failingCluster:
  "ocsNFSService_ensureDeleted (reconciler clusterClient (Some storageClusterGVK))
       ocsinit (failingCluster, []) =
     ((emptyResult,
       Some (Errorf ''uninstall: Unable to retrieve NFS Service ocsinit-cephnfs-service: etcdserver: request timed out'')),
      (emptyCluster, [CallGet (NamespacedName ''openshift-storage'' ''ocsinit-cephnfs-service'')]))"
  using ocsNFSService_fetch_error_surfaced_on_delete [OF newNFSService_ocsinit
      Get_failingCluster failingCluster_fields(3), of "[]"]
  by (simp add: desiredNFSService_fields serverTimeout_def)

section \<open>The delete request for an object already marked for deletion\<close>

text \<open>
  C5 asks that \<^verbatim>\<open>ensureDeleted\<close> issues the delete request only if the fetched live
  object is not yet marked for deletion. The code tests the deletion timestamp of the
  object it has just built, which never carries one, so the request is always issued:
  for the parent \<open>ocsinit\<close> and a live object that already carries a deletion
  timestamp, each of the five reconcilers issues the fetch, a delete request for that
  object, and the re-fetch.
\<close>

theorem C5_delete_issued_for_marked_object:
  "ocsNFSService_ensureDeleted (reconciler clusterClient (Some storageClusterGVK))
       ocsinit (clusterWith (markedForDeletion desiredNFSService), []) =
     ((emptyResult, Some (Errorf ''uninstall: Waiting for NFS Service ocsinit-cephnfs-service to be deleted'')),
      (clusterWith (markedForDeletion desiredNFSService),
       [CallGet (NamespacedName ''openshift-storage'' ''ocsinit-cephnfs-service''),
        CallDelete (markedForDeletion desiredNFSService),
        CallGet (NamespacedName ''openshift-storage'' ''ocsinit-cephnfs-service'')])) \<and>
   ocsCephNetworkFilesystem_ensureDeleted exampleHelpers (reconciler clusterClient (Some storageClusterGVK))
       ocsinit (clusterWith (markedForDeletion desiredCephNetworkFilesystem), []) =
     ((emptyResult, Some (Errorf ''uninstall: Waiting for cephNetworkFilesystem ocsinit-cephnetworkfilesystem to be deleted'')),
      (clusterWith (markedForDeletion desiredCephNetworkFilesystem),
       [CallGet (NamespacedName ''openshift-storage'' ''ocsinit-cephnetworkfilesystem''),
        CallDelete (markedForDeletion desiredCephNetworkFilesystem),
        CallGet (NamespacedName ''openshift-storage'' ''ocsinit-cephnetworkfilesystem'')])) \<and>
   ocsCephNFS_ensureDeleted exampleHelpers (reconciler clusterClient (Some storageClusterGVK))
       ocsinit (clusterWith (markedForDeletion desiredCephNFS), []) =
     ((emptyResult, Some (Errorf ''uninstall: Waiting for CephNFS ocsinit-cephnfs to be deleted'')),
      (clusterWith (markedForDeletion desiredCephNFS),
       [CallGet (NamespacedName ''openshift-storage'' ''ocsinit-cephnfs''),
        CallDelete (markedForDeletion desiredCephNFS),
        CallGet (NamespacedName ''openshift-storage'' ''ocsinit-cephnfs'')])) \<and>
   ocsCephNFSBlockPool_ensureDeleted exampleHelpers (reconciler clusterClient (Some storageClusterGVK))
       ocsinit (clusterWith (markedForDeletion desiredCephBlockPool), []) =
     ((emptyResult, Some (Errorf ''uninstall: Waiting for CephBlockPool ocsinit-cephnfs-builtin-pool to be deleted'')),
      (clusterWith (markedForDeletion desiredCephBlockPool),
       [CallGet (NamespacedName ''openshift-storage'' ''ocsinit-cephnfs-builtin-pool''),
        CallDelete (markedForDeletion desiredCephBlockPool),
        CallGet (NamespacedName ''openshift-storage'' ''ocsinit-cephnfs-builtin-pool'')])) \<and>
   ocsCephNFSService_ensureDeleted (reconciler clusterClient (Some storageClusterGVK))
       ocsinit (clusterWith (markedForDeletion desiredCephNFSService), []) =
     ((emptyResult, Some (Errorf ''uninstall: Waiting for NFS Service ocsinit-cephnfs-service to be deleted'')),
      (clusterWith (markedForDeletion desiredCephNFSService),
       [CallGet (NamespacedName ''openshift-storage'' ''ocsinit-cephnfs-service''),
        CallDelete (markedForDeletion desiredCephNFSService),
        CallGet (NamespacedName ''openshift-storage'' ''ocsinit-cephnfs-service'')]))"
proof -
  have k1: "ocsNFSService_ensureDeleted (reconciler clusterClient (Some storageClusterGVK))
       ocsinit (clusterWith (markedForDeletion desiredNFSService), []) =
     ((emptyResult, Some (Errorf ''uninstall: Waiting for NFS Service ocsinit-cephnfs-service to be deleted'')),
      (clusterWith (markedForDeletion desiredNFSService),
       [CallGet (NamespacedName ''openshift-storage'' ''ocsinit-cephnfs-service''),
        CallDelete (markedForDeletion desiredNFSService),
        CallGet (NamespacedName ''openshift-storage'' ''ocsinit-cephnfs-service'')]))"
    using ocsNFSService_refetch [OF newNFSService_ocsinit Get_marked Delete_marked Get_marked, of "[]"]
    by (simp add: desiredNFSService_fields)
  have k2: "ocsCephNetworkFilesystem_ensureDeleted exampleHelpers (reconciler clusterClient (Some storageClusterGVK))
       ocsinit (clusterWith (markedForDeletion desiredCephNetworkFilesystem), []) =
     ((emptyResult, Some (Errorf ''uninstall: Waiting for cephNetworkFilesystem ocsinit-cephnetworkfilesystem to be deleted'')),
      (clusterWith (markedForDeletion desiredCephNetworkFilesystem),
       [CallGet (NamespacedName ''openshift-storage'' ''ocsinit-cephnetworkfilesystem''),
        CallDelete (markedForDeletion desiredCephNetworkFilesystem),
        CallGet (NamespacedName ''openshift-storage'' ''ocsinit-cephnetworkfilesystem'')]))"
    using ocsCephNetworkFilesystem_refetch [OF newCephNetworkFilesystemInstance_ocsinit Get_marked Delete_marked Get_marked, of "[]"]
    by (simp add: desiredCephNetworkFilesystem_fields)
  have k3: "ocsCephNFS_ensureDeleted exampleHelpers (reconciler clusterClient (Some storageClusterGVK))
       ocsinit (clusterWith (markedForDeletion desiredCephNFS), []) =
     ((emptyResult, Some (Errorf ''uninstall: Waiting for CephNFS ocsinit-cephnfs to be deleted'')),
      (clusterWith (markedForDeletion desiredCephNFS),
       [CallGet (NamespacedName ''openshift-storage'' ''ocsinit-cephnfs''),
        CallDelete (markedForDeletion desiredCephNFS),
        CallGet (NamespacedName ''openshift-storage'' ''ocsinit-cephnfs'')]))"
    using ocsCephNFS_refetch [OF newCephNFSInstance_ocsinit Get_marked Delete_marked Get_marked, of "[]"]
    by (simp add: desiredCephNFS_fields)
  have k4: "ocsCephNFSBlockPool_ensureDeleted exampleHelpers (reconciler clusterClient (Some storageClusterGVK))
       ocsinit (clusterWith (markedForDeletion desiredCephBlockPool), []) =
     ((emptyResult, Some (Errorf ''uninstall: Waiting for CephBlockPool ocsinit-cephnfs-builtin-pool to be deleted'')),
      (clusterWith (markedForDeletion desiredCephBlockPool),
       [CallGet (NamespacedName ''openshift-storage'' ''ocsinit-cephnfs-builtin-pool''),
        CallDelete (markedForDeletion desiredCephBlockPool),
        CallGet (NamespacedName ''openshift-storage'' ''ocsinit-cephnfs-builtin-pool'')]))"
    using ocsCephNFSBlockPool_refetch [OF newCephNFSBlockPoolInstance_ocsinit Get_marked Delete_marked Get_marked, of "[]"]
    by (simp add: desiredCephBlockPool_fields)
  have k5: "ocsCephNFSService_ensureDeleted (reconciler clusterClient (Some storageClusterGVK))
       ocsinit (clusterWith (markedForDeletion desiredCephNFSService), []) =
     ((emptyResult, Some (Errorf ''uninstall: Waiting for NFS Service ocsinit-cephnfs-service to be deleted'')),
      (clusterWith (markedForDeletion desiredCephNFSService),
       [CallGet (NamespacedName ''openshift-storage'' ''ocsinit-cephnfs-service''),
        CallDelete (markedForDeletion desiredCephNFSService),
        CallGet (NamespacedName ''openshift-storage'' ''ocsinit-cephnfs-service'')]))"
    using ocsCephNFSService_refetch [OF ocsCephNFSService_newNFSService_ocsinit Get_marked Delete_marked Get_marked, of "[]"]
    by (simp add: desiredCephNFSService_fields)
  show ?thesis by (intro conjI k1 k2 k3 k4 k5)
qed

section \<open>The update path of the NFS Service reconciler\<close>

lemma liveNFSService_fields:
  "keyOf liveNFSService = keyOf desiredNFSService"
  "DeletionTimestamp (ObjectMeta liveNFSService) = None"
  by (simp_all add: liveNFSService_def desiredNFSService_def ownedMeta_fields keyOf_def
      newObjectMeta_def)

lemma Get_liveNFSService:
  "Get clusterClient (keyOf desiredNFSService) (clusterWith liveNFSService) =
     (Inr liveNFSService, clusterWith liveNFSService)"
  using Get_clusterWith [of liveNFSService] by (simp add: liveNFSService_fields)

lemma restoredNFSService_eq:
  "liveNFSService\<lparr>ObjectMeta := (ObjectMeta liveNFSService)
                      \<lparr>OwnerReferences := OwnerReferences (ObjectMeta desiredNFSService)\<rparr>,
                    Spec := (Spec liveNFSService)
                      \<lparr>Ports := Ports (Spec desiredNFSService),
                       Selector := Selector (Spec desiredNFSService),
                       SessionAffinity := SessionAffinity (Spec desiredNFSService)\<rparr>\<rparr> =
     restoredNFSService"
  by (simp add: liveNFSService_def desiredNFSService_def restoredNFSService_def
      ownedMeta_def newObjectMeta_def)

lemma restoredNFSService_fields:
  "keyOf restoredNFSService = keyOf liveNFSService"
  "ClusterIP (Spec restoredNFSService) = ''172.30.12.7''"
  "ClusterIP (Spec liveNFSService) = ''172.30.12.7''"
  "restoredNFSService \<noteq> liveNFSService"
  by (simp_all add: restoredNFSService_def liveNFSService_def keyOf_def newObjectMeta_def)

text \<open>
  C9. On the update path of the NFS Service reconciler of \<^verbatim>\<open>nfsservice.go\<close> (feature
  enabled, live Service found and not marked for deletion), the object submitted to
  \<^verbatim>\<open>Update\<close> is the live Service with its owner references, ports, selector and session
  affinity overwritten from the desired object and nothing else: the cluster IP
  assigned by the substrate, the other spec fields, the status and the rest of the
  metadata are those of the live Service. The outcome is the outcome of that update.
\<close>

theorem C9_update_overwrites_four_fields_only:
  assumes "\<not> nfsDisabled p"
    and "newNFSService (reconciler c sch) p = Inr d"
    and "Get c (keyOf d) s = (Inr e, s1)"
    and "DeletionTimestamp (ObjectMeta e) = None"
  shows "let e' = e\<lparr>ObjectMeta := (ObjectMeta e)
                      \<lparr>OwnerReferences := OwnerReferences (ObjectMeta d)\<rparr>,
                    Spec := (Spec e)
                      \<lparr>Ports := Ports (Spec d), Selector := Selector (Spec d),
                       SessionAffinity := SessionAffinity (Spec d)\<rparr>\<rparr>
         in ocsNFSService_ensureCreated (reconciler c sch) p (s, log) =
              ((emptyResult, fst (Update c e' s1)),
               (snd (Update c e' s1), log @ [CallGet (keyOf d), CallUpdate e'])) \<and>
            OwnerReferences (ObjectMeta e') = OwnerReferences (ObjectMeta d) \<and>
            Ports (Spec e') = Ports (Spec d) \<and>
            Selector (Spec e') = Selector (Spec d) \<and>
            SessionAffinity (Spec e') = SessionAffinity (Spec d) \<and>
            ClusterIP (Spec e') = ClusterIP (Spec e) \<and>
            ClusterIPs (Spec e') = ClusterIPs (Spec e) \<and>
            ServiceType (Spec e') = ServiceType (Spec e) \<and>
            ExternalIPs (Spec e') = ExternalIPs (Spec e) \<and>
            Status e' = Status e \<and>
            Name (ObjectMeta e') = Name (ObjectMeta e) \<and>
            Namespace (ObjectMeta e') = Namespace (ObjectMeta e) \<and>
            UID (ObjectMeta e') = UID (ObjectMeta e) \<and>
            ResourceVersion (ObjectMeta e') = ResourceVersion (ObjectMeta e) \<and>
            Labels (ObjectMeta e') = Labels (ObjectMeta e) \<and>
            Annotations (ObjectMeta e') = Annotations (ObjectMeta e) \<and>
            Finalizers (ObjectMeta e') = Finalizers (ObjectMeta e) \<and>
            DeletionTimestamp (ObjectMeta e') = DeletionTimestamp (ObjectMeta e)"
  using assms
  by (simp add: ocsNFSService_ensureCreated_def newNFSService_meta Let_def
      split: prod.split option.split)

theorem C9_witness:
  "ocsNFSService_ensureCreated (reconciler clusterClient (Some storageClusterGVK))
       ocsinit (clusterWith liveNFSService, []) =
     ((emptyResult, None),
      (clusterWith restoredNFSService,
       [CallGet (NamespacedName ''openshift-storage'' ''ocsinit-cephnfs-service''),
        CallUpdate restoredNFSService])) \<and>
   ClusterIP (Spec liveNFSService) = ''172.30.12.7'' \<and>
   ClusterIP (Spec restoredNFSService) = ''172.30.12.7''"
  using C9_update_overwrites_four_fields_only [OF ocsinit_enabled newNFSService_ocsinit
      Get_liveNFSService liveNFSService_fields(2), of "[]"]
  by (simp add: Let_def restoredNFSService_eq restoredNFSService_fields
      Update_clusterWith [of restoredNFSService liveNFSService] desiredNFSService_fields)


section \<open>The desired-state builders\<close>

text \<open>A builder reads the parent's name, namespace, UID and spec, the scheme of the
  reconciler and, for the Ceph kinds, the placement helper's answer for the parent:
  two invocations that agree on these return the same result, whatever else differs
  between the two parents (resource version, labels, annotations, finalizers, status)
  and between the two reconcilers (the client).\<close>

lemma newNFSService_same_parent:
  assumes "Scheme r = Scheme r'"
    and "Name (ObjectMeta p) = Name (ObjectMeta p')"
    and "Namespace (ObjectMeta p) = Namespace (ObjectMeta p')"
    and "UID (ObjectMeta p) = UID (ObjectMeta p')"
    and "Spec p = Spec p'"
  shows "newNFSService r p = newNFSService r' p'"
  using assms
  by (simp add: newNFSService_def generateName_defs SetControllerReference_def Let_def
      cong: if_cong option.case_cong sum.case_cong)

lemma newNFSService_name:
  "newNFSService r p = Inr d \<Longrightarrow> Name (ObjectMeta d) = Name (ObjectMeta p) @ ''-cephnfs-service''"
  by (auto simp: newNFSService_def newObjectMeta_def Let_def generateName_defs
      dest!: SetControllerReference_meta split: sum.splits if_splits)

lemma newCephNetworkFilesystemInstance_same_parent:
  assumes "Scheme r = Scheme r'"
    and "Name (ObjectMeta p) = Name (ObjectMeta p')"
    and "Namespace (ObjectMeta p) = Namespace (ObjectMeta p')"
    and "UID (ObjectMeta p) = UID (ObjectMeta p')"
    and "Spec p = Spec p'"
    and "getPlacement h p ''nfs'' = getPlacement h p' ''nfs''"
  shows "newCephNetworkFilesystemInstance h r p = newCephNetworkFilesystemInstance h r' p'"
  using assms
  by (simp add: newCephNetworkFilesystemInstance_def generateName_defs SetControllerReference_def Let_def
      cong: if_cong option.case_cong sum.case_cong)

lemma newCephNetworkFilesystemInstance_name:
  "newCephNetworkFilesystemInstance h r p = Inr d \<Longrightarrow> Name (ObjectMeta d) = Name (ObjectMeta p) @ ''-cephnetworkfilesystem''"
  by (auto simp: newCephNetworkFilesystemInstance_def newObjectMeta_def Let_def generateName_defs
      dest!: SetControllerReference_meta split: sum.splits if_splits)

lemma newCephNFSInstance_same_parent:
  assumes "Scheme r = Scheme r'"
    and "Name (ObjectMeta p) = Name (ObjectMeta p')"
    and "Namespace (ObjectMeta p) = Namespace (ObjectMeta p')"
    and "UID (ObjectMeta p) = UID (ObjectMeta p')"
    and "Spec p = Spec p'"
    and "getPlacement h p ''nfs'' = getPlacement h p' ''nfs''"
  shows "newCephNFSInstance h r p = newCephNFSInstance h r' p'"
  using assms
  by (simp add: newCephNFSInstance_def generateName_defs SetControllerReference_def Let_def
      cong: if_cong option.case_cong sum.case_cong)

lemma newCephNFSInstance_name:
  "newCephNFSInstance h r p = Inr d \<Longrightarrow> Name (ObjectMeta d) = Name (ObjectMeta p) @ ''-cephnfs''"
  by (auto simp: newCephNFSInstance_def newObjectMeta_def Let_def generateName_defs
      dest!: SetControllerReference_meta split: sum.splits if_splits)

lemma newCephNFSBlockPoolInstance_same_parent:
  assumes "Scheme r = Scheme r'"
    and "Name (ObjectMeta p) = Name (ObjectMeta p')"
    and "Namespace (ObjectMeta p) = Namespace (ObjectMeta p')"
    and "UID (ObjectMeta p) = UID (ObjectMeta p')"
    and "Spec p = Spec p'"
    and "getPlacement h p ''nfs'' = getPlacement h p' ''nfs''"
    and "generateNameForCephNFSBlockPool h p = generateNameForCephNFSBlockPool h p'"
    and "getFailureDomain h p = getFailureDomain h p'"
    and "generateCephReplicatedSpec h p ''data'' = generateCephReplicatedSpec h p' ''data''"
  shows "newCephNFSBlockPoolInstance h r p = newCephNFSBlockPoolInstance h r' p'"
  using assms
  by (simp add: newCephNFSBlockPoolInstance_def generateName_defs SetControllerReference_def Let_def
      cong: if_cong option.case_cong sum.case_cong)

lemma newCephNFSBlockPoolInstance_name:
  "newCephNFSBlockPoolInstance h r p = Inr d \<Longrightarrow> Name (ObjectMeta d) = generateNameForCephNFSBlockPool h p"
  by (auto simp: newCephNFSBlockPoolInstance_def newObjectMeta_def Let_def generateName_defs
      dest!: SetControllerReference_meta split: sum.splits if_splits)

lemma ocsCephNFSService_newNFSService_same_parent:
  assumes "Scheme r = Scheme r'"
    and "Name (ObjectMeta p) = Name (ObjectMeta p')"
    and "Namespace (ObjectMeta p) = Namespace (ObjectMeta p')"
    and "UID (ObjectMeta p) = UID (ObjectMeta p')"
    and "Spec p = Spec p'"
  shows "ocsCephNFSService_newNFSService r p = ocsCephNFSService_newNFSService r' p'"
  using assms
  by (simp add: ocsCephNFSService_newNFSService_def generateName_defs SetControllerReference_def Let_def
      cong: if_cong option.case_cong sum.case_cong)

lemma ocsCephNFSService_newNFSService_name:
  "ocsCephNFSService_newNFSService r p = Inr d \<Longrightarrow> Name (ObjectMeta d) = Name (ObjectMeta p) @ ''-cephnfs-service''"
  by (auto simp: ocsCephNFSService_newNFSService_def newObjectMeta_def Let_def generateName_defs
      dest!: SetControllerReference_meta split: sum.splits if_splits)

lemma ocsinitRelabelled_fields:
  "Name (ObjectMeta ocsinitRelabelled) = Name (ObjectMeta ocsinit)"
  "Namespace (ObjectMeta ocsinitRelabelled) = Namespace (ObjectMeta ocsinit)"
  "UID (ObjectMeta ocsinitRelabelled) = UID (ObjectMeta ocsinit)"
  "Spec ocsinitRelabelled = Spec ocsinit"
  "ResourceVersion (ObjectMeta ocsinitRelabelled) = ''8841''"
  "ResourceVersion (ObjectMeta ocsinit) = []"
  by (simp_all add: ocsinitRelabelled_def ocsinit_def newObjectMeta_def)

text \<open>
  C8. The desired-state builders are deterministic: two invocations of a builder on
  parents with the same identity (name, namespace, UID) and the same spec, by
  reconcilers with the same scheme (and, for the Ceph kinds, with the placement helper
  giving the same answer for both parents), yield identical results, the derived name
  included; nothing else of the parent or of the reconciler is read. The derived name
  of a built object is the parent's name followed by a suffix fixed by the kind: a
  function of the parent identity and the kind alone. Stated for \<^verbatim>\<open>newNFSService\<close>
  (both forms), \<^verbatim>\<open>newCephNetworkFilesystemInstance\<close> and \<^verbatim>\<open>newCephNFSInstance\<close>.
\<close>

theorem C8_builders_deterministic:
  "(Scheme r = Scheme r' \<longrightarrow>
    Name (ObjectMeta p) = Name (ObjectMeta p') \<longrightarrow>
    Namespace (ObjectMeta p) = Namespace (ObjectMeta p') \<longrightarrow>
    UID (ObjectMeta p) = UID (ObjectMeta p') \<longrightarrow>
    Spec p = Spec p' \<longrightarrow>
    newNFSService r p = newNFSService r' p') \<and>
   (\<forall>d. newNFSService r p = Inr d \<longrightarrow>
       Name (ObjectMeta d) = Name (ObjectMeta p) @ ''-cephnfs-service'') \<and>
   (Scheme r = Scheme r' \<longrightarrow>
    Name (ObjectMeta p) = Name (ObjectMeta p') \<longrightarrow>
    Namespace (ObjectMeta p) = Namespace (ObjectMeta p') \<longrightarrow>
    UID (ObjectMeta p) = UID (ObjectMeta p') \<longrightarrow>
    Spec p = Spec p' \<longrightarrow>
    getPlacement h p ''nfs'' = getPlacement h p' ''nfs'' \<longrightarrow>
    newCephNetworkFilesystemInstance h r p = newCephNetworkFilesystemInstance h r' p') \<and>
   (\<forall>d. newCephNetworkFilesystemInstance h r p = Inr d \<longrightarrow>
       Name (ObjectMeta d) = Name (ObjectMeta p) @ ''-cephnetworkfilesystem'') \<and>
   (Scheme r = Scheme r' \<longrightarrow>
    Name (ObjectMeta p) = Name (ObjectMeta p') \<longrightarrow>
    Namespace (ObjectMeta p) = Namespace (ObjectMeta p') \<longrightarrow>
    UID (ObjectMeta p) = UID (ObjectMeta p') \<longrightarrow>
    Spec p = Spec p' \<longrightarrow>
    getPlacement h p ''nfs'' = getPlacement h p' ''nfs'' \<longrightarrow>
    newCephNFSInstance h r p = newCephNFSInstance h r' p') \<and>
   (\<forall>d. newCephNFSInstance h r p = Inr d \<longrightarrow>
       Name (ObjectMeta d) = Name (ObjectMeta p) @ ''-cephnfs'') \<and>
   (Scheme r = Scheme r' \<longrightarrow>
    Name (ObjectMeta p) = Name (ObjectMeta p') \<longrightarrow>
    Namespace (ObjectMeta p) = Namespace (ObjectMeta p') \<longrightarrow>
    UID (ObjectMeta p) = UID (ObjectMeta p') \<longrightarrow>
    Spec p = Spec p' \<longrightarrow>
    ocsCephNFSService_newNFSService r p = ocsCephNFSService_newNFSService r' p') \<and>
   (\<forall>d. ocsCephNFSService_newNFSService r p = Inr d \<longrightarrow>
       Name (ObjectMeta d) = Name (ObjectMeta p) @ ''-cephnfs-service'')"
  by (rule conjI, (intro impI, erule (4) newNFSService_same_parent),
      rule conjI, (intro allI impI, erule newNFSService_name),
      rule conjI, (intro impI, erule (5) newCephNetworkFilesystemInstance_same_parent),
      rule conjI, (intro allI impI, erule newCephNetworkFilesystemInstance_name),
      rule conjI, (intro impI, erule (5) newCephNFSInstance_same_parent),
      rule conjI, (intro allI impI, erule newCephNFSInstance_name),
      rule conjI, (intro impI, erule (4) ocsCephNFSService_newNFSService_same_parent),
      (intro allI impI, erule ocsCephNFSService_newNFSService_name))

theorem C8_witness:
  "ResourceVersion (ObjectMeta ocsinitRelabelled) = ''8841'' \<and>
   ResourceVersion (ObjectMeta ocsinit) = [] \<and>
   newNFSService (reconciler (clusterClient :: (service cluster, service) client)
        (Some storageClusterGVK)) ocsinitRelabelled =
     newNFSService \<lparr>Client = clusterClient :: (service cluster, service) client,
        Scheme = Some storageClusterGVK\<rparr> ocsinit \<and>
   newNFSService \<lparr>Client = clusterClient :: (service cluster, service) client,
        Scheme = Some storageClusterGVK\<rparr> ocsinit = Inr desiredNFSService \<and>
   Name (ObjectMeta desiredNFSService) = ''ocsinit-cephnfs-service'' \<and>
   newCephNetworkFilesystemInstance exampleHelpers (reconciler (clusterClient :: (cephNFS cluster, cephNFS) client)
        (Some storageClusterGVK)) ocsinitRelabelled =
     newCephNetworkFilesystemInstance exampleHelpers \<lparr>Client = clusterClient :: (cephNFS cluster, cephNFS) client,
        Scheme = Some storageClusterGVK\<rparr> ocsinit \<and>
   newCephNetworkFilesystemInstance exampleHelpers \<lparr>Client = clusterClient :: (cephNFS cluster, cephNFS) client,
        Scheme = Some storageClusterGVK\<rparr> ocsinit = Inr desiredCephNetworkFilesystem \<and>
   Name (ObjectMeta desiredCephNetworkFilesystem) = ''ocsinit-cephnetworkfilesystem'' \<and>
   newCephNFSInstance exampleHelpers (reconciler (clusterClient :: (cephNFS cluster, cephNFS) client)
        (Some storageClusterGVK)) ocsinitRelabelled =
     newCephNFSInstance exampleHelpers \<lparr>Client = clusterClient :: (cephNFS cluster, cephNFS) client,
        Scheme = Some storageClusterGVK\<rparr> ocsinit \<and>
   newCephNFSInstance exampleHelpers \<lparr>Client = clusterClient :: (cephNFS cluster, cephNFS) client,
        Scheme = Some storageClusterGVK\<rparr> ocsinit = Inr desiredCephNFS \<and>
   Name (ObjectMeta desiredCephNFS) = ''ocsinit-cephnfs'' \<and>
   ocsCephNFSService_newNFSService (reconciler (clusterClient :: (service cluster, service) client)
        (Some storageClusterGVK)) ocsinitRelabelled =
     ocsCephNFSService_newNFSService \<lparr>Client = clusterClient :: (service cluster, service) client,
        Scheme = Some storageClusterGVK\<rparr> ocsinit \<and>
   ocsCephNFSService_newNFSService \<lparr>Client = clusterClient :: (service cluster, service) client,
        Scheme = Some storageClusterGVK\<rparr> ocsinit = Inr desiredCephNFSService \<and>
   Name (ObjectMeta desiredCephNFSService) = ''ocsinit-cephnfs-service''"
proof -
  note t = C8_builders_deterministic [where h = exampleHelpers]
  have b1: "newNFSService \<lparr>Client = clusterClient :: (service cluster, service) client,
        Scheme = Some storageClusterGVK\<rparr> ocsinit = Inr desiredNFSService"
    using newNFSService_ocsinit [of clusterClient]
    by (simp add: newNFSService_def)
  have a1: "newNFSService (reconciler (clusterClient :: (service cluster, service) client)
        (Some storageClusterGVK)) ocsinitRelabelled =
     newNFSService \<lparr>Client = clusterClient :: (service cluster, service) client,
        Scheme = Some storageClusterGVK\<rparr> ocsinit"
    using t [where p = ocsinitRelabelled and p' = ocsinit
        and r = "reconciler (clusterClient :: (service cluster, service) client)
        (Some storageClusterGVK)"
        and r' = "\<lparr>Client = clusterClient :: (service cluster, service) client,
        Scheme = Some storageClusterGVK\<rparr>",
        THEN conjunct1]
    by (simp add: ocsinitRelabelled_fields exampleHelpers_simps)
  have c1: "Name (ObjectMeta desiredNFSService) = ''ocsinit-cephnfs-service''"
    using t [where p = ocsinit
        and r = "\<lparr>Client = clusterClient :: (service cluster, service) client,
        Scheme = Some storageClusterGVK\<rparr>",
        THEN conjunct2, THEN conjunct1, rule_format, OF b1]
    by (simp add: ocsinit_fields)
  have b2: "newCephNetworkFilesystemInstance exampleHelpers \<lparr>Client = clusterClient :: (cephNFS cluster, cephNFS) client,
        Scheme = Some storageClusterGVK\<rparr> ocsinit = Inr desiredCephNetworkFilesystem"
    using newCephNetworkFilesystemInstance_ocsinit [of clusterClient]
    by (simp add: newCephNetworkFilesystemInstance_def)
  have a2: "newCephNetworkFilesystemInstance exampleHelpers (reconciler (clusterClient :: (cephNFS cluster, cephNFS) client)
        (Some storageClusterGVK)) ocsinitRelabelled =
     newCephNetworkFilesystemInstance exampleHelpers \<lparr>Client = clusterClient :: (cephNFS cluster, cephNFS) client,
        Scheme = Some storageClusterGVK\<rparr> ocsinit"
    using t [where p = ocsinitRelabelled and p' = ocsinit
        and r = "reconciler (clusterClient :: (cephNFS cluster, cephNFS) client)
        (Some storageClusterGVK)"
        and r' = "\<lparr>Client = clusterClient :: (cephNFS cluster, cephNFS) client,
        Scheme = Some storageClusterGVK\<rparr>",
        THEN conjunct2, THEN conjunct2, THEN conjunct1]
    by (simp add: ocsinitRelabelled_fields exampleHelpers_simps)
  have c2: "Name (ObjectMeta desiredCephNetworkFilesystem) = ''ocsinit-cephnetworkfilesystem''"
    using t [where p = ocsinit
        and r = "\<lparr>Client = clusterClient :: (cephNFS cluster, cephNFS) client,
        Scheme = Some storageClusterGVK\<rparr>",
        THEN conjunct2, THEN conjunct2, THEN conjunct2, THEN conjunct1, rule_format, OF b2]
    by (simp add: ocsinit_fields)
  have b3: "newCephNFSInstance exampleHelpers \<lparr>Client = clusterClient :: (cephNFS cluster, cephNFS) client,
        Scheme = Some storageClusterGVK\<rparr> ocsinit = Inr desiredCephNFS"
    using newCephNFSInstance_ocsinit [of clusterClient]
    by (simp add: newCephNFSInstance_def)
  have a3: "newCephNFSInstance exampleHelpers (reconciler (clusterClient :: (cephNFS cluster, cephNFS) client)
        (Some storageClusterGVK)) ocsinitRelabelled =
     newCephNFSInstance exampleHelpers \<lparr>Client = clusterClient :: (cephNFS cluster, cephNFS) client,
        Scheme = Some storageClusterGVK\<rparr> ocsinit"
    using t [where p = ocsinitRelabelled and p' = ocsinit
        and r = "reconciler (clusterClient :: (cephNFS cluster, cephNFS) client)
        (Some storageClusterGVK)"
        and r' = "\<lparr>Client = clusterClient :: (cephNFS cluster, cephNFS) client,
        Scheme = Some storageClusterGVK\<rparr>",
        THEN conjunct2, THEN conjunct2, THEN conjunct2, THEN conjunct2, THEN conjunct1]
    by (simp add: ocsinitRelabelled_fields exampleHelpers_simps)
  have c3: "Name (ObjectMeta desiredCephNFS) = ''ocsinit-cephnfs''"
    using t [where p = ocsinit
        and r = "\<lparr>Client = clusterClient :: (cephNFS cluster, cephNFS) client,
        Scheme = Some storageClusterGVK\<rparr>",
        THEN conjunct2, THEN conjunct2, THEN conjunct2, THEN conjunct2, THEN conjunct2, THEN conjunct1, rule_format, OF b3]
    by (simp add: ocsinit_fields)
  have b4: "ocsCephNFSService_newNFSService \<lparr>Client = clusterClient :: (service cluster, service) client,
        Scheme = Some storageClusterGVK\<rparr> ocsinit = Inr desiredCephNFSService"
    using ocsCephNFSService_newNFSService_ocsinit [of clusterClient]
    by (simp add: ocsCephNFSService_newNFSService_def)
  have a4: "ocsCephNFSService_newNFSService (reconciler (clusterClient :: (service cluster, service) client)
        (Some storageClusterGVK)) ocsinitRelabelled =
     ocsCephNFSService_newNFSService \<lparr>Client = clusterClient :: (service cluster, service) client,
        Scheme = Some storageClusterGVK\<rparr> ocsinit"
    using t [where p = ocsinitRelabelled and p' = ocsinit
        and r = "reconciler (clusterClient :: (service cluster, service) client)
        (Some storageClusterGVK)"
        and r' = "\<lparr>Client = clusterClient :: (service cluster, service) client,
        Scheme = Some storageClusterGVK\<rparr>",
        THEN conjunct2, THEN conjunct2, THEN conjunct2, THEN conjunct2, THEN conjunct2, THEN conjunct2, THEN conjunct1]
    by (simp add: ocsinitRelabelled_fields exampleHelpers_simps)
  have c4: "Name (ObjectMeta desiredCephNFSService) = ''ocsinit-cephnfs-service''"
    using t [where p = ocsinit
        and r = "\<lparr>Client = clusterClient :: (service cluster, service) client,
        Scheme = Some storageClusterGVK\<rparr>",
        THEN conjunct2, THEN conjunct2, THEN conjunct2, THEN conjunct2, THEN conjunct2, THEN conjunct2, THEN conjunct2, rule_format, OF b4]
    by (simp add: ocsinit_fields)
  show ?thesis
    by (intro conjI ocsinitRelabelled_fields(5) ocsinitRelabelled_fields(6)
        a1 b1 c1 a2 b2 c2 a3 b3 c3 a4 b4 c4)
qed


section \<open>Idempotence on the reference substrate\<close>







































end
